theory Spec2Isabelle
  imports Complex_Main "HOL-Library.Sublist" "HOL-Library.Word"
begin

text \<open>
  The image upload pipeline of the Lambda function: the image processor (format
  classification, the conversion for the scan and the conversion for storage, with
  their error classification), the two versions of the moderation scan client, and
  the handler that validates a request, has it scanned and, on a pass, publishes it.
  The image library, the object stores and the scanning service are parameters.
\<close>

section \<open>JavaScript strings and values\<close>

text \<open>
  Strings are lists of characters. The three string operations of the source that
  matter are \<^verbatim>\<open>String.prototype.toLowerCase\<close>, \<^verbatim>\<open>includes\<close> and \<^verbatim>\<open>replace\<close>
  with a string pattern (which replaces the first occurrence only). Lower-casing is
  modelled on the ASCII letters, the only ones that occur in the format names.
\<close>

definition toLowerCase_char :: "char \<Rightarrow> char" where
  "toLowerCase_char c =
     (case map_of (zip ''ABCDEFGHIJKLMNOPQRSTUVWXYZ'' ''abcdefghijklmnopqrstuvwxyz'') c of
        None \<Rightarrow> c
      | Some l \<Rightarrow> l)"

definition toLowerCase :: "string \<Rightarrow> string" where
  "toLowerCase s = map toLowerCase_char s"

fun str_includes :: "string \<Rightarrow> string \<Rightarrow> bool" where
  "str_includes [] pat = (pat = [])"
| "str_includes (c # cs) pat = (prefix pat (c # cs) \<or> str_includes cs pat)"

fun replace_str :: "string \<Rightarrow> string \<Rightarrow> string \<Rightarrow> string" where
  "replace_str [] pat rep = (if pat = [] then rep else [])"
| "replace_str (c # cs) pat rep =
     (if prefix pat (c # cs) then rep @ drop (length pat) (c # cs)
      else c # replace_str cs pat rep)"

text \<open>Decimal rendering of a non-negative integer, as a template literal does.\<close>

definition digit_char :: "nat \<Rightarrow> char" where
  "digit_char d = ''0123456789'' ! d"

fun show_nat :: "nat \<Rightarrow> string" where
  "show_nat n =
     (if n < 10 then [digit_char n]
      else show_nat (n div 10) @ [digit_char (n mod 10)])"

declare show_nat.simps [simp del]

type_synonym buffer = "8 word list"

text \<open>
  What a \<^verbatim>\<open>catch\<close> clause can receive: a plain \<^verbatim>\<open>Error\<close> with its message, an
  \<^verbatim>\<open>ImageProcessorError\<close> (status code, error type, message), or a value that is not
  an \<^verbatim>\<open>Error\<close> at all (carried with its string rendering).
\<close>

datatype thrown =
    JsError string
  | ImageProcessorError nat string string
  | NonError string

fun instanceof_Error :: "thrown \<Rightarrow> bool" where
  "instanceof_Error (JsError m) = True"
| "instanceof_Error (ImageProcessorError c t m) = True"
| "instanceof_Error (NonError s) = False"

fun instanceof_ImageProcessorError :: "thrown \<Rightarrow> bool" where
  "instanceof_ImageProcessorError (ImageProcessorError c t m) = True"
| "instanceof_ImageProcessorError e = False"

fun message :: "thrown \<Rightarrow> string" where
  "message (JsError m) = m"
| "message (ImageProcessorError c t m) = m"
| "message (NonError s) = []"

fun String_of :: "thrown \<Rightarrow> string" where
  "String_of (JsError m) = ''Error: '' @ m"
| "String_of (ImageProcessorError c t m) = ''ImageProcessorError: '' @ m"
| "String_of (NonError s) = s"

text \<open>The \<^verbatim>\<open>errorType\<close> of what was thrown; only an \<^verbatim>\<open>ImageProcessorError\<close> has one.\<close>

fun errorType :: "thrown \<Rightarrow> string option" where
  "errorType (ImageProcessorError c t m) = Some t"
| "errorType e = None"

section \<open>The collaborators\<close>

text \<open>
  The image library, the two object stores and the scanning service are outside the
  repository. Each is a field of the environment: a function from the arguments of the
  call to its outcome, \<open>Inl\<close> (or \<open>Some\<close>) for a rejected promise. The delete
  operation is called up to twice with the same key during one scan, so its outcome
  also depends on the number of earlier delete calls.
\<close>

record SharpOptions =
  failOnError :: bool
  limitInputPixels :: nat
  sequentialRead :: "bool option"

record Metadata =
  width :: "nat option"
  height :: "nat option"

record PngOptions =
  compressionLevel :: "nat option"
  adaptiveFiltering :: "bool option"

record WebpOptions =
  quality :: "nat option"
  effort :: "nat option"

record ModerationLabel =
  Name :: "string option"
  Confidence :: "real option"

record env =
  sharp_metadata :: "SharpOptions \<Rightarrow> buffer \<Rightarrow> thrown + Metadata"
  sharp_png :: "SharpOptions \<Rightarrow> PngOptions \<Rightarrow> buffer \<Rightarrow> thrown + buffer"
  sharp_webp :: "SharpOptions \<Rightarrow> WebpOptions \<Rightarrow> buffer \<Rightarrow> thrown + buffer"
  s3_putObject :: "string \<Rightarrow> buffer \<Rightarrow> string \<Rightarrow> thrown option"
  s3_deleteObject :: "nat \<Rightarrow> string \<Rightarrow> thrown option"
  rekognition_detectModerationLabels ::
    "string \<Rightarrow> real \<Rightarrow> thrown + ModerationLabel list option"
  rekognition_detectLabels ::
    "string \<Rightarrow> nat \<Rightarrow> real \<Rightarrow> thrown + ModerationLabel list option"
  backblaze_putObject :: "string \<Rightarrow> buffer \<Rightarrow> string \<Rightarrow> thrown option"
  base64_decode :: "string \<Rightarrow> buffer"
  uuidv4 :: string
  Date_now :: nat
  CDN_URL :: "string option"

section \<open>ImageProcessor\<close>

definition SUPPORTED_FORMATS :: "string list" where
  "SUPPORTED_FORMATS = [''webp'', ''jpg'', ''jpeg'', ''png'']"

definition REKOGNITION_COMPATIBLE_FORMATS :: "string list" where
  "REKOGNITION_COMPATIBLE_FORMATS = [''jpeg'', ''png'']"

definition MAX_INPUT_PIXELS :: nat where
  "MAX_INPUT_PIXELS = 67108864"

definition MAX_IMAGE_DIMENSION :: nat where
  "MAX_IMAGE_DIMENSION = 8192"

definition extractFormatFromContentType :: "string \<Rightarrow> string" where
  "extractFormatFromContentType contentType =
     replace_str (toLowerCase contentType) ''image/'' ''''"

definition isSupportedFormat :: "string \<Rightarrow> bool" where
  "isSupportedFormat contentType =
     (extractFormatFromContentType contentType \<in> set SUPPORTED_FORMATS)"

text \<open>
  \<^verbatim>\<open>formatMap[format] || 'image/jpeg'\<close>, for the four keys of the table and any
  other format name.
\<close>

definition getMimeType :: "string \<Rightarrow> string" where
  "getMimeType format =
     (if format = ''webp'' then ''image/webp''
      else if format = ''jpg'' then ''image/jpeg''
      else if format = ''jpeg'' then ''image/jpeg''
      else if format = ''png'' then ''image/png''
      else ''image/jpeg'')"

definition enhancedOptions :: SharpOptions where
  "enhancedOptions =
     \<lparr>failOnError = False, limitInputPixels = MAX_INPUT_PIXELS, sequentialRead = Some True\<rparr>"

definition truthy_num :: "nat option \<Rightarrow> bool" where
  "truthy_num v = (case v of None \<Rightarrow> False | Some n \<Rightarrow> n \<noteq> 0)"

definition num_value :: "nat option \<Rightarrow> nat" where
  "num_value v = (case v of None \<Rightarrow> 0 | Some n \<Rightarrow> n)"

definition dimension_message :: "nat \<Rightarrow> nat \<Rightarrow> string" where
  "dimension_message w h =
     ''Image dimensions ('' @ show_nat w @ ''x'' @ show_nat h
     @ '') exceed maximum allowed ('' @ show_nat MAX_IMAGE_DIMENSION @ ''x''
     @ show_nat MAX_IMAGE_DIMENSION @ ''). Please reduce image dimensions.''"

text \<open>The body of the \<^verbatim>\<open>try\<close> block of \<^verbatim>\<open>instantiateSharpImage\<close>.\<close>

definition instantiate_try :: "env \<Rightarrow> buffer \<Rightarrow> thrown + buffer" where
  "instantiate_try e imageBuffer =
     (case sharp_metadata e enhancedOptions imageBuffer of
        Inl err \<Rightarrow> Inl err
      | Inr metadata \<Rightarrow>
          if truthy_num (width metadata) \<and> truthy_num (height metadata)
             \<and> (num_value (width metadata) > MAX_IMAGE_DIMENSION
                \<or> num_value (height metadata) > MAX_IMAGE_DIMENSION)
          then Inl (ImageProcessorError 413 ''ImageTooLarge''
                 (dimension_message (num_value (width metadata)) (num_value (height metadata))))
          else Inr imageBuffer)"

text \<open>The \<^verbatim>\<open>catch\<close> clause of \<^verbatim>\<open>instantiateSharpImage\<close>: what it throws for what it caught.\<close>

definition instantiate_catch :: "thrown \<Rightarrow> thrown" where
  "instantiate_catch error =
     (if instanceof_Error error
         \<and> (str_includes (message error) ''memory''
            \<or> (str_includes (message error) ''buffer''
               \<and> \<not> str_includes (message error) ''unsupported image format''
               \<and> \<not> str_includes (message error) ''Input buffer contains unsupported image format''))
      then ImageProcessorError 413 ''MemoryLimitExceeded''
        ''Image is too large to process in 24MB Lambda environment. Please reduce image size and try again.''
      else if instanceof_Error error
         \<and> (str_includes (message error) ''pixel'' \<or> str_includes (message error) ''dimension'')
      then ImageProcessorError 413 ''ImageTooLarge''
        ''Image dimensions are too large for 24MB Lambda environment. Please reduce image dimensions and try again.''
      else if instanceof_Error error
         \<and> (str_includes (message error) ''unsupported image format''
            \<or> str_includes (message error) ''Input buffer contains unsupported image format'')
      then ImageProcessorError 400 ''InvalidImageFormat''
        ''The provided data is not a valid image format. Please ensure you are uploading a valid image file.''
      else ImageProcessorError 400 ''InstantiationError''
        ''Input image could not be instantiated. Please choose a valid image.'')"

definition instantiateSharpImage :: "env \<Rightarrow> buffer \<Rightarrow> thrown + buffer" where
  "instantiateSharpImage e imageBuffer =
     (case instantiate_try e imageBuffer of
        Inl error \<Rightarrow> Inl (instantiate_catch error)
      | Inr sharpInstance \<Rightarrow> Inr sharpInstance)"

definition convertToPNG :: "env \<Rightarrow> buffer \<Rightarrow> thrown + buffer" where
  "convertToPNG e imageBuffer =
     (case (case instantiateSharpImage e imageBuffer of
              Inl err \<Rightarrow> Inl err
            | Inr sharpInstance \<Rightarrow>
                sharp_png e enhancedOptions
                  \<lparr>compressionLevel = Some 6, adaptiveFiltering = Some True\<rparr> sharpInstance) of
        Inl error \<Rightarrow> Inl (ImageProcessorError 500 ''PNGConversionError''
                            ''Failed to convert image to PNG format.'')
      | Inr pngBuffer \<Rightarrow> Inr pngBuffer)"

text \<open>
  The \<^verbatim>\<open>catch\<close> clause shared, word for word, by \<^verbatim>\<open>convertToWebP\<close> and
  \<^verbatim>\<open>convertToWebPIfNeeded\<close>.
\<close>

definition webp_catch :: "thrown \<Rightarrow> thrown" where
  "webp_catch error =
     (if instanceof_ImageProcessorError error then error
      else if instanceof_Error error
         \<and> (str_includes (message error) ''memory'' \<or> str_includes (message error) ''buffer'')
      then ImageProcessorError 413 ''MemoryLimitExceeded''
        ''Image is too large to convert to WebP in 24MB Lambda environment. Please reduce image size and try again.''
      else if instanceof_Error error
         \<and> (str_includes (message error) ''timeout'' \<or> str_includes (message error) ''timed out'')
      then ImageProcessorError 408 ''ProcessingTimeout''
        ''Image conversion timed out. Please try with a smaller image.''
      else ImageProcessorError 500 ''WebPConversionError''
        ''Failed to convert image to WebP format.'')"

definition convertToWebP :: "env \<Rightarrow> buffer \<Rightarrow> thrown + buffer" where
  "convertToWebP e imageBuffer =
     (case (case instantiateSharpImage e imageBuffer of
              Inl err \<Rightarrow> Inl err
            | Inr sharpInstance \<Rightarrow>
                sharp_webp e enhancedOptions \<lparr>quality = Some 80, effort = None\<rparr> sharpInstance) of
        Inl error \<Rightarrow> Inl (webp_catch error)
      | Inr webpBuffer \<Rightarrow> Inr webpBuffer)"

record ConversionResult =
  buffer :: buffer
  format :: string
  converted :: bool

definition convertToRekognitionCompatible ::
  "env \<Rightarrow> buffer \<Rightarrow> string \<Rightarrow> thrown + ConversionResult" where
  "convertToRekognitionCompatible e imageBuffer contentType =
     (let originalFormat = extractFormatFromContentType contentType
      in if originalFormat \<in> set REKOGNITION_COMPATIBLE_FORMATS
         then Inr \<lparr>buffer = imageBuffer, format = originalFormat, converted = False\<rparr>
         else (case convertToPNG e imageBuffer of
                 Inl error \<Rightarrow> Inl (ImageProcessorError 500 ''RekognitionCompatibilityError''
                   ''Failed to convert image to Rekognition compatible format.'')
               | Inr pngBuffer \<Rightarrow>
                   Inr \<lparr>buffer = pngBuffer, format = ''png'', converted = True\<rparr>))"

definition convertToWebPIfNeeded ::
  "env \<Rightarrow> buffer \<Rightarrow> string \<Rightarrow> thrown + ConversionResult" where
  "convertToWebPIfNeeded e imageBuffer contentType =
     (let originalFormat = extractFormatFromContentType contentType
      in if originalFormat = ''webp''
         then Inr \<lparr>buffer = imageBuffer, format = ''webp'', converted = False\<rparr>
         else (case convertToWebP e imageBuffer of
                 Inl error \<Rightarrow> Inl (webp_catch error)
               | Inr webpBuffer \<Rightarrow>
                   Inr \<lparr>buffer = webpBuffer, format = ''webp'', converted = True\<rparr>))"

section \<open>Effects\<close>

text \<open>
  A run is observed through the calls it makes on the object stores and on the scanning
  service, in order, together with the log lines of the scan client. A call is recorded
  when it is made, whether or not it then fails. The log lines of the handler and of the
  image processor are not part of the trace.
\<close>

datatype log_level = Info | Warn | Err

datatype event =
    CallS3Put string buffer string
  | CallDetectModerationLabels string real
  | CallDetectLabels string nat real
  | CallS3Delete string
  | CallBackblazePut string buffer string
  | Logged log_level string

fun is_delete :: "event \<Rightarrow> bool" where
  "is_delete (CallS3Delete k) = True"
| "is_delete ev = False"

fun is_backblaze_put :: "event \<Rightarrow> bool" where
  "is_backblaze_put (CallBackblazePut k b m) = True"
| "is_backblaze_put ev = False"

definition delete_calls :: "event list \<Rightarrow> nat" where
  "delete_calls evs = length (filter is_delete evs)"

section \<open>RekognitionClient\<close>

record ContentModerationResult =
  passed :: bool
  moderationLabels :: "string list"
  confidence :: real
  error :: "string option"

definition label_name :: "ModerationLabel \<Rightarrow> string" where
  "label_name l = (case Name l of None \<Rightarrow> [] | Some n \<Rightarrow> n)"

definition label_confidence :: "ModerationLabel \<Rightarrow> real" where
  "label_confidence l = (case Confidence l of None \<Rightarrow> 0 | Some c \<Rightarrow> c)"

definition labels_or_empty :: "ModerationLabel list option \<Rightarrow> ModerationLabel list" where
  "labels_or_empty r = (case r of None \<Rightarrow> [] | Some ls \<Rightarrow> ls)"

definition max_confidence :: "ModerationLabel list \<Rightarrow> real" where
  "max_confidence ls = foldl (\<lambda>mx l. max mx (label_confidence l)) 0 ls"

definition label_names :: "ModerationLabel list \<Rightarrow> string list" where
  "label_names ls = filter (\<lambda>n. n \<noteq> []) (map label_name ls)"

definition tempKey_of :: "env \<Rightarrow> string \<Rightarrow> string" where
  "tempKey_of e rekognitionContentType =
     ''temp-moderation/'' @ uuidv4 e @ ''-'' @ show_nat (Date_now e) @ ''.''
     @ (if rekognitionContentType = ''image/jpeg'' then ''jpg'' else ''png'')"

text \<open>
  The \<^verbatim>\<open>catch\<close> clause of \<^verbatim>\<open>scanImageForModeration\<close>, the same in both versions of
  the client: log, try to delete the staged object (a failure of that delete is logged
  and dropped), and answer with a failed verdict that carries the error message.
\<close>

definition caught_verdict :: "thrown \<Rightarrow> ContentModerationResult" where
  "caught_verdict err =
     \<lparr>passed = False, moderationLabels = [], confidence = 0,
      error = Some (if instanceof_Error err then message err else ''Unknown error occurred'')\<rparr>"

definition scan_catch ::
  "env \<Rightarrow> string \<Rightarrow> event list \<Rightarrow> thrown \<Rightarrow> event list \<times> ContentModerationResult" where
  "scan_catch e tempKey evs err =
     (evs @ [Logged Err ''Error during content moderation scan'', CallS3Delete tempKey]
      @ (case s3_deleteObject e (delete_calls evs) tempKey of
           None \<Rightarrow> [Logged Info ''Cleaned up temporary S3 object after error'']
         | Some cleanupError \<Rightarrow> [Logged Warn ''Failed to clean up temporary S3 object'']),
      caught_verdict err)"

subsection \<open>The client of \<^verbatim>\<open>src/clients/rekognition.ts\<close>\<close>

definition explicitContentLabels :: "string list" where
  "explicitContentLabels =
     [''Explicit Nudity'', ''Violence'', ''Visually Disturbing'', ''Hate Symbols'',
      ''Gambling'', ''Drugs'', ''Tobacco'', ''Alcohol'', ''Rude Gestures'', ''Adult Content'']"

definition hasExplicitContent :: "ModerationLabel list \<Rightarrow> bool" where
  "hasExplicitContent ls =
     list_ex (\<lambda>l. label_name l \<in> set explicitContentLabels \<and> label_confidence l \<ge> 70) ls"

text \<open>The body of the \<^verbatim>\<open>try\<close> block, from the upload of the staged object on.\<close>

definition scan_try ::
  "env \<Rightarrow> buffer \<Rightarrow> string \<Rightarrow> string \<Rightarrow> event list
     \<Rightarrow> event list \<times> (thrown + ContentModerationResult)" where
  "scan_try e rekognitionBuffer rekognitionContentType tempKey evs0 =
     (let evs1 = evs0 @ [CallS3Put tempKey rekognitionBuffer rekognitionContentType]
      in case s3_putObject e tempKey rekognitionBuffer rekognitionContentType of
           Some err \<Rightarrow> (evs1, Inl err)
         | None \<Rightarrow>
        (let evs2 = evs1 @ [Logged Info ''Image uploaded to S3 for moderation'',
                            CallDetectModerationLabels tempKey 50]
         in case rekognition_detectModerationLabels e tempKey 50 of
              Inl err \<Rightarrow> (evs2, Inl err)
            | Inr moderationResult \<Rightarrow>
           (let labels = labels_or_empty moderationResult;
                maxConfidence = max_confidence labels;
                evs3 = evs2 @ [Logged Info ''Rekognition moderation scan completed'',
                               CallS3Delete tempKey]
            in case s3_deleteObject e (delete_calls evs2) tempKey of
                 Some err \<Rightarrow> (evs3, Inl err)
               | None \<Rightarrow>
                   (evs3 @ [Logged Info ''Temporary S3 object cleaned up''],
                    Inr \<lparr>passed = \<not> hasExplicitContent labels,
                         moderationLabels = label_names labels,
                         confidence = maxConfidence, error = None\<rparr>))))"

text \<open>The \<^verbatim>\<open>try\<close> block with its \<^verbatim>\<open>catch\<close> clause: from here on nothing is thrown.\<close>

definition scan_staged ::
  "env \<Rightarrow> buffer \<Rightarrow> string \<Rightarrow> event list \<Rightarrow> event list \<times> ContentModerationResult" where
  "scan_staged e rekognitionBuffer rekognitionContentType evs0 =
     (let tempKey = tempKey_of e rekognitionContentType
      in case scan_try e rekognitionBuffer rekognitionContentType tempKey evs0 of
           (evs, Inr result) \<Rightarrow> (evs, result)
         | (evs, Inl err) \<Rightarrow> scan_catch e tempKey evs err)"

definition RekognitionClient_scanImageForModeration ::
  "env \<Rightarrow> buffer \<Rightarrow> string \<Rightarrow> event list \<times> (thrown + ContentModerationResult)" where
  "RekognitionClient_scanImageForModeration e imageBuffer contentType =
     (let evs0 = [Logged Info ''Starting content moderation scan'']
      in if contentType \<noteq> ''image/jpeg'' \<and> contentType \<noteq> ''image/png''
         then (let evs1 = evs0 @ [Logged Info ''Converting image to PNG for Rekognition compatibility'']
               in case sharp_png e
                         \<lparr>failOnError = False, limitInputPixels = 268402689, sequentialRead = None\<rparr>
                         \<lparr>compressionLevel = None, adaptiveFiltering = None\<rparr> imageBuffer of
                    Inl conversionError \<Rightarrow>
                      (evs1 @ [Logged Err ''Failed to convert image to PNG for Rekognition''],
                       Inl (JsError (''Failed to convert image to PNG for Rekognition: ''
                                     @ String_of conversionError)))
                  | Inr pngBuffer \<Rightarrow>
                      (case scan_staged e pngBuffer ''image/png''
                              (evs1 @ [Logged Info ''Image converted to PNG successfully for Rekognition'']) of
                         (evs, result) \<Rightarrow> (evs, Inr result)))
         else (case scan_staged e imageBuffer contentType evs0 of
                 (evs, result) \<Rightarrow> (evs, Inr result)))"

subsection \<open>The client with the hybrid scan\<close>

definition blockedContentLabels :: "string list" where
  "blockedContentLabels =
     [''Explicit Nudity'', ''Visually Disturbing'', ''Hate Symbols'', ''Gambling'',
      ''Drugs'', ''Tobacco'', ''Alcohol'', ''Rude Gestures'', ''Adult Content'']"

definition hasInappropriateContent :: "ModerationLabel list \<Rightarrow> bool" where
  "hasInappropriateContent ls =
     list_ex (\<lambda>l. label_name l \<in> set blockedContentLabels \<and> label_confidence l \<ge> 70) ls"

definition weaponLabels :: "ModerationLabel list \<Rightarrow> ModerationLabel list" where
  "weaponLabels objectLabels =
     filter (\<lambda>l. label_name l \<in> set [''Weapon'', ''Gun'', ''Firearm'', ''Rifle'', ''Knife'',
                                       ''Sword'', ''Ammunition'']
                 \<and> label_confidence l \<ge> 50) objectLabels"

definition combatLabels :: "ModerationLabel list \<Rightarrow> ModerationLabel list" where
  "combatLabels objectLabels =
     filter (\<lambda>l. label_name l \<in> set [''Combat'', ''War'', ''Military'', ''Armor'', ''Shield'']
                 \<and> label_confidence l \<ge> 50) objectLabels"

definition scan_try_hybrid ::
  "env \<Rightarrow> buffer \<Rightarrow> string \<Rightarrow> string \<Rightarrow> event list
     \<Rightarrow> event list \<times> (thrown + ContentModerationResult)" where
  "scan_try_hybrid e rekognitionBuffer rekognitionContentType tempKey evs0 =
     (let evs1 = evs0 @ [CallS3Put tempKey rekognitionBuffer rekognitionContentType]
      in case s3_putObject e tempKey rekognitionBuffer rekognitionContentType of
           Some err \<Rightarrow> (evs1, Inl err)
         | None \<Rightarrow>
        (let evs2 = evs1 @ [Logged Info ''Image uploaded to S3 for moderation'',
                            CallDetectModerationLabels tempKey 70]
         in case rekognition_detectModerationLabels e tempKey 70 of
              Inl err \<Rightarrow> (evs2, Inl err)
            | Inr moderationResult \<Rightarrow>
           (let evs3 = evs2 @ [CallDetectLabels tempKey 20 50]
            in case rekognition_detectLabels e tempKey 20 50 of
                 Inl err \<Rightarrow> (evs3, Inl err)
               | Inr labelsResult \<Rightarrow>
              (let labels = labels_or_empty moderationResult;
                   objectLabels = labels_or_empty labelsResult;
                   maxModerationConfidence = max_confidence labels;
                   evs4 = evs3 @ [Logged Info ''Rekognition hybrid scan completed'']
                     @ (if weaponLabels objectLabels \<noteq> [] \<or> combatLabels objectLabels \<noteq> []
                        then [Logged Info ''Star Citizen game content detected''] else []);
                   hasExplicit = hasInappropriateContent labels;
                   evs5 = evs4 @ [CallS3Delete tempKey]
               in case s3_deleteObject e (delete_calls evs4) tempKey of
                    Some err \<Rightarrow> (evs5, Inl err)
                  | None \<Rightarrow>
                      (evs5 @ [Logged Info ''Temporary S3 object cleaned up'',
                               Logged Info ''Content moderation decision made''],
                       Inr \<lparr>passed = \<not> hasExplicit,
                            moderationLabels = label_names labels,
                            confidence = maxModerationConfidence, error = None\<rparr>)))))"

definition scan_staged_hybrid ::
  "env \<Rightarrow> buffer \<Rightarrow> string \<Rightarrow> event list \<Rightarrow> event list \<times> ContentModerationResult" where
  "scan_staged_hybrid e rekognitionBuffer rekognitionContentType evs0 =
     (let tempKey = tempKey_of e rekognitionContentType
      in case scan_try_hybrid e rekognitionBuffer rekognitionContentType tempKey evs0 of
           (evs, Inr result) \<Rightarrow> (evs, result)
         | (evs, Inl err) \<Rightarrow> scan_catch e tempKey evs err)"

definition RekognitionClient_scanImageForModeration_hybrid ::
  "env \<Rightarrow> buffer \<Rightarrow> string \<Rightarrow> event list \<times> (thrown + ContentModerationResult)" where
  "RekognitionClient_scanImageForModeration_hybrid e imageBuffer contentType =
     (case scan_staged_hybrid e imageBuffer contentType
             [Logged Info ''Starting content moderation scan''] of
        (evs, result) \<Rightarrow> (evs, Inr result))"

text \<open>
  The repository holds both versions of the client under the same class and method
  name; the handler is modelled over either.
\<close>

datatype client_version = Plain | Hybrid

definition RekognitionClient_scan ::
  "client_version \<Rightarrow> env \<Rightarrow> buffer \<Rightarrow> string
     \<Rightarrow> event list \<times> (thrown + ContentModerationResult)" where
  "RekognitionClient_scan v =
     (case v of Plain \<Rightarrow> RekognitionClient_scanImageForModeration
              | Hybrid \<Rightarrow> RekognitionClient_scanImageForModeration_hybrid)"

section \<open>The handler\<close>

record UploadRequest =
  imageData :: "string option"
  filename :: "string option"
  contentType :: "string option"

datatype response_data =
    FileTooLargeData nat nat string
  | ModerationFailedData "string list" real
  | SuccessData string string string string bool real

record LambdaResponse =
  success :: bool
  message_text :: string
  error_kind :: "string option"
  data :: "response_data option"

record APIGatewayProxyResult =
  statusCode :: nat
  body :: LambdaResponse

definition truthy_str :: "string option \<Rightarrow> bool" where
  "truthy_str v = (case v of None \<Rightarrow> False | Some s \<Rightarrow> s \<noteq> [])"

definition str_value :: "string option \<Rightarrow> string" where
  "str_value v = (case v of None \<Rightarrow> [] | Some s \<Rightarrow> s)"

text \<open>
  \<^verbatim>\<open>(imageBuffer.length / (1024 * 1024)).toFixed(2)\<close>: the quotient is exact in
  binary floating point, and \<^verbatim>\<open>toFixed\<close> rounds it to the nearest hundredth, the
  larger one on a tie.
\<close>

definition toFixed2_MB :: "nat \<Rightarrow> string" where
  "toFixed2_MB len =
     (let n = (100 * len + 524288) div 1048576
      in show_nat (n div 100) @ ''.'' @ show_nat (n mod 100 div 10) @ show_nat (n mod 10))"

text \<open>
  \<^verbatim>\<open>filename.replace(/\.[^/.]+$/, '.webp')\<close>: the leftmost position where a dot is
  followed, up to the end of the string, by one or more characters that are neither a
  slash nor a dot; the match is replaced, and a string without a match is returned as
  it is.
\<close>

definition extension_chars :: "string \<Rightarrow> bool" where
  "extension_chars cs = (cs \<noteq> [] \<and> list_all (\<lambda>d. d \<noteq> CHR ''/'' \<and> d \<noteq> CHR ''.'') cs)"

fun replace_extension :: "string \<Rightarrow> string" where
  "replace_extension [] = []"
| "replace_extension (c # cs) =
     (if c = CHR ''.'' \<and> extension_chars cs then ''.webp''
      else c # replace_extension cs)"

text \<open>The function \<^verbatim>\<open>scanImageForModeration\<close> of the handler's module.\<close>

definition scanImageForModeration ::
  "client_version \<Rightarrow> env \<Rightarrow> buffer \<Rightarrow> string
     \<Rightarrow> event list \<times> (thrown + ContentModerationResult)" where
  "scanImageForModeration v e imageBuffer ctype =
     (case convertToRekognitionCompatible e imageBuffer ctype of
        Inl err \<Rightarrow> ([], Inl err)
      | Inr rekognitionImage \<Rightarrow>
          (case RekognitionClient_scan v e (buffer rekognitionImage)
                  (getMimeType (format rekognitionImage)) of
             (evs, Inl err) \<Rightarrow> (evs, Inl err)
           | (evs, Inr moderationResult) \<Rightarrow>
               (evs, Inr \<lparr>passed = passed moderationResult,
                          moderationLabels = moderationLabels moderationResult,
                          confidence = confidence moderationResult,
                          error = None\<rparr>)))"

definition uploadImageToBackblaze ::
  "env \<Rightarrow> buffer \<Rightarrow> string \<Rightarrow> string \<Rightarrow> event list \<times> (thrown + string)" where
  "uploadImageToBackblaze e imageBuffer fname ctype =
     (case convertToWebPIfNeeded e imageBuffer ctype of
        Inl err \<Rightarrow> ([], Inl (JsError (''Failed to upload image to Backblaze: '' @ String_of err)))
      | Inr webpImage \<Rightarrow>
          (let evs = [CallBackblazePut fname (buffer webpImage) (getMimeType (format webpImage))]
           in case backblaze_putObject e fname (buffer webpImage)
                     (getMimeType (format webpImage)) of
                Some err \<Rightarrow>
                  (evs, Inl (JsError (''Failed to upload image to Backblaze: '' @ String_of err)))
              | None \<Rightarrow>
                  (evs, Inr ((case CDN_URL e of None \<Rightarrow> ''undefined'' | Some u \<Rightarrow> u)
                             @ ''/'' @ fname))))"

definition internal_error_response :: APIGatewayProxyResult where
  "internal_error_response =
     \<lparr>statusCode = 500,
      body = \<lparr>success = False, message_text = ''Internal server error'',
              error_kind = Some ''INTERNAL_ERROR'', data = None\<rparr>\<rparr>"

definition moderation_failed_response :: "ContentModerationResult \<Rightarrow> APIGatewayProxyResult" where
  "moderation_failed_response moderationResult =
     \<lparr>statusCode = 400,
      body = \<lparr>success = False, message_text = ''Image failed moderation checks'',
              error_kind = Some ''MODERATION_FAILED'',
              data = Some (ModerationFailedData (moderationLabels moderationResult)
                             (confidence moderationResult))\<rparr>\<rparr>"

text \<open>\<^verbatim>\<open>body.contentType || 'image/jpeg'\<close>: an absent or empty content type is replaced.\<close>

definition declaredContentType :: "UploadRequest \<Rightarrow> string" where
  "declaredContentType req =
     (if truthy_str (contentType req) then str_value (contentType req) else ''image/jpeg'')"

definition handler ::
  "client_version \<Rightarrow> env \<Rightarrow> UploadRequest option \<Rightarrow> event list \<times> APIGatewayProxyResult" where
  "handler v e event =
     (case event of
        None \<Rightarrow>
          ([], \<lparr>statusCode = 400,
                body = \<lparr>success = False,
                        message_text = ''Missing required fields: imageData and filename'',
                        error_kind = Some ''VALIDATION_ERROR'', data = None\<rparr>\<rparr>)
      | Some req \<Rightarrow>
          if \<not> truthy_str (imageData req) \<or> \<not> truthy_str (filename req)
          then ([], \<lparr>statusCode = 400,
                     body = \<lparr>success = False,
                             message_text = ''Missing required fields: imageData and filename'',
                             error_kind = Some ''VALIDATION_ERROR'', data = None\<rparr>\<rparr>)
          else
            (let ctype = declaredContentType req
             in if \<not> isSupportedFormat ctype
                then ([], \<lparr>statusCode = 400,
                           body = \<lparr>success = False,
                                   message_text = ''Unsupported image format: '' @ ctype
                                     @ ''. Only webp, jpg, and png are supported.'',
                                   error_kind = Some ''UNSUPPORTED_FORMAT'', data = None\<rparr>\<rparr>)
                else
                  (let imageBuffer = base64_decode e (str_value (imageData req));
                       maxSizeBytes = 2 * 1024 * 1024
                   in if length imageBuffer > maxSizeBytes
                      then ([], \<lparr>statusCode = 400,
                                 body = \<lparr>success = False,
                                         message_text = ''Image file size too large: ''
                                           @ toFixed2_MB (length imageBuffer)
                                           @ ''MB. Maximum allowed size is 2MB.'',
                                         error_kind = Some ''FILE_TOO_LARGE'',
                                         data = Some (FileTooLargeData (length imageBuffer)
                                                        maxSizeBytes
                                                        (toFixed2_MB (length imageBuffer)))\<rparr>\<rparr>)
                      else
                        (case scanImageForModeration v e imageBuffer ctype of
                           (evs, Inl err) \<Rightarrow> (evs, internal_error_response)
                         | (evs, Inr moderationResult) \<Rightarrow>
                             if \<not> passed moderationResult
                             then (evs, moderation_failed_response moderationResult)
                             else
                               (let finalFilename = replace_extension (str_value (filename req))
                                in case uploadImageToBackblaze e imageBuffer finalFilename ctype of
                                     (evs', Inl err) \<Rightarrow> (evs @ evs', internal_error_response)
                                   | (evs', Inr backblazeUrl) \<Rightarrow>
                                       (evs @ evs',
                                        \<lparr>statusCode = 200,
                                         body = \<lparr>success = True,
                                                 message_text =
                                                   ''Image successfully processed and uploaded'',
                                                 error_kind = None,
                                                 data = Some (SuccessData finalFilename backblazeUrl
                                                   (extractFormatFromContentType ctype) ''webp''
                                                   True (confidence moderationResult))\<rparr>\<rparr>))))))"

section \<open>Collaborator doubles for concrete runs\<close>

text \<open>
  An environment in which every collaborator succeeds: the image library reports a
  640 by 480 image and returns fixed bytes for each target format, the stores accept
  every call, and the scanning service returns the given moderation and object labels.
\<close>

definition png_bytes :: buffer where
  "png_bytes = [137, 80, 78, 71]"

definition webp_bytes :: buffer where
  "webp_bytes = [82, 73, 70, 70]"

definition stub_env :: "ModerationLabel list \<Rightarrow> ModerationLabel list \<Rightarrow> env" where
  "stub_env labels objectLabels =
     \<lparr>sharp_metadata = (\<lambda>opts b. Inr \<lparr>width = Some 640, height = Some 480\<rparr>),
      sharp_png = (\<lambda>opts p b. Inr png_bytes),
      sharp_webp = (\<lambda>opts w b. Inr webp_bytes),
      s3_putObject = (\<lambda>k b c. None),
      s3_deleteObject = (\<lambda>n k. None),
      rekognition_detectModerationLabels = (\<lambda>k m. Inr (Some labels)),
      rekognition_detectLabels = (\<lambda>k n m. Inr (Some objectLabels)),
      backblaze_putObject = (\<lambda>k b c. None),
      base64_decode = (\<lambda>s. replicate (length s) 7),
      uuidv4 = ''u1'',
      Date_now = 1700,
      CDN_URL = Some ''https://cdn.example''\<rparr>"

text \<open>The same, except that the first delete of the staged object is refused.\<close>

definition stub_env_delete_fails :: "ModerationLabel list \<Rightarrow> ModerationLabel list \<Rightarrow> env" where
  "stub_env_delete_fails labels objectLabels =
     (stub_env labels objectLabels)
       \<lparr>s3_deleteObject := (\<lambda>n k. if n = 0 then Some (JsError ''AccessDenied'') else None)\<rparr>"

text \<open>The same as \<open>stub_env\<close>, except that the encoder answers with the options it was given.\<close>

definition stub_env_echo_webp :: env where
  "stub_env_echo_webp =
     (stub_env [] [])
       \<lparr>sharp_webp := (\<lambda>opts w b. Inr [of_nat (num_value (quality w)),
                                          of_nat (num_value (effort w))])\<rparr>"

text \<open>The image library refuses to read the bytes.\<close>

definition stub_env_undecodable :: env where
  "stub_env_undecodable =
     (stub_env [] [])
       \<lparr>sharp_metadata :=
          (\<lambda>opts b. Inl (JsError ''Input buffer contains unsupported image format''))\<rparr>"

text \<open>The encoder runs out of time.\<close>

definition stub_env_webp_timeout :: env where
  "stub_env_webp_timeout =
     (stub_env [] [])
       \<lparr>sharp_webp := (\<lambda>opts w b. Inl (JsError ''operation timed out''))\<rparr>"

text \<open>The encoder fails with the message the decoder uses for unrecognised bytes.\<close>

definition stub_env_webp_format_report :: env where
  "stub_env_webp_format_report =
     (stub_env [] [])
       \<lparr>sharp_webp :=
          (\<lambda>opts w b. Inl (JsError ''Input buffer contains unsupported image format''))\<rparr>"

definition stub_request :: "string \<Rightarrow> string option \<Rightarrow> UploadRequest" where
  "stub_request fname ctype =
     \<lparr>imageData = Some ''AAAA'', filename = Some fname, contentType = ctype\<rparr>"

section \<open>Properties of the string operations\<close>

lemma str_includes_sublist: "str_includes s pat \<longleftrightarrow> sublist pat s"
  by (induction s) (auto simp: sublist_Cons_right)

lemma str_includes_trans:
  "str_includes s mid \<Longrightarrow> str_includes mid pat \<Longrightarrow> str_includes s pat"
  unfolding str_includes_sublist by (rule sublist_order.order.trans)

lemma includes_unsupported_phrase:
  "str_includes m ''Input buffer contains unsupported image format''
     \<Longrightarrow> str_includes m ''unsupported image format''"
  by (erule str_includes_trans) simp

section \<open>Properties of the format classifier and the two boundary conversions\<close>

lemmas format_evals = extractFormatFromContentType_def toLowerCase_def toLowerCase_char_def

lemma rekognition_compatible_iff:
  "extractFormatFromContentType ct \<in> set REKOGNITION_COMPATIBLE_FORMATS
     \<longleftrightarrow> extractFormatFromContentType ct = ''jpeg'' \<or> extractFormatFromContentType ct = ''png''"
  by (simp add: REKOGNITION_COMPATIBLE_FORMATS_def)

lemma convertToRekognitionCompatible_passthrough:
  assumes "extractFormatFromContentType ct = ''jpeg'' \<or> extractFormatFromContentType ct = ''png''"
  shows "convertToRekognitionCompatible e b ct
         = Inr \<lparr>buffer = b, format = extractFormatFromContentType ct, converted = False\<rparr>"
  using assms by (simp add: convertToRekognitionCompatible_def rekognition_compatible_iff)

lemma convertToPNG_Inr:
  assumes "convertToPNG e b = Inr p"
  shows "sharp_png e enhancedOptions
           \<lparr>compressionLevel = Some 6, adaptiveFiltering = Some True\<rparr> b = Inr p"
proof (cases "instantiateSharpImage e b")
  case (Inl err)
  with assms show ?thesis by (simp add: convertToPNG_def)
next
  case (Inr img)
  then have "img = b"
    by (auto simp: instantiateSharpImage_def instantiate_try_def split: sum.splits if_splits)
  with assms Inr show ?thesis
    by (simp add: convertToPNG_def split: sum.splits)
qed

lemma convertToRekognitionCompatible_converts:
  assumes "extractFormatFromContentType ct \<noteq> ''jpeg''"
    and "extractFormatFromContentType ct \<noteq> ''png''"
    and "convertToRekognitionCompatible e b ct = Inr r"
  shows "converted r \<and> format r = ''png''
         \<and> sharp_png e enhancedOptions
              \<lparr>compressionLevel = Some 6, adaptiveFiltering = Some True\<rparr> b = Inr (buffer r)"
proof (cases "convertToPNG e b")
  case (Inl err)
  with assms show ?thesis
    by (simp add: convertToRekognitionCompatible_def rekognition_compatible_iff)
next
  case (Inr p)
  with assms have "r = \<lparr>buffer = p, format = ''png'', converted = True\<rparr>"
    by (simp add: convertToRekognitionCompatible_def rekognition_compatible_iff)
  with convertToPNG_Inr [OF Inr] show ?thesis by simp
qed

lemma convertToWebPIfNeeded_passthrough:
  "extractFormatFromContentType ct = ''webp'' \<Longrightarrow>
     convertToWebPIfNeeded e b ct = Inr \<lparr>buffer = b, format = ''webp'', converted = False\<rparr>"
  by (simp add: convertToWebPIfNeeded_def)

lemma instantiate_catch_is_ImageProcessorError:
  "instanceof_ImageProcessorError (instantiate_catch err)"
  by (simp add: instantiate_catch_def)

lemma webp_catch_idem:
  "instanceof_ImageProcessorError err \<Longrightarrow> webp_catch err = err"
  by (simp add: webp_catch_def)

lemma webp_catch_is_ImageProcessorError:
  "instanceof_ImageProcessorError (webp_catch err)"
  by (simp add: webp_catch_def)

lemma instantiateSharpImage_Inr:
  "instantiateSharpImage e b = Inr img \<Longrightarrow> img = b"
  by (auto simp: instantiateSharpImage_def instantiate_try_def split: sum.splits if_splits)

text \<open>What \<^verbatim>\<open>convertToWebP\<close> asks of the encoder does not depend on the input's length.\<close>

lemma convertToWebP_unfold:
  "convertToWebP e b =
     (case instantiateSharpImage e b of
        Inl err \<Rightarrow> Inl err
      | Inr img \<Rightarrow>
          (case sharp_webp e enhancedOptions \<lparr>quality = Some 80, effort = None\<rparr> b of
             Inl err \<Rightarrow> Inl (webp_catch err)
           | Inr w \<Rightarrow> Inr w))"
proof (cases "instantiateSharpImage e b")
  case (Inl err)
  then have "instanceof_ImageProcessorError err"
    using instantiate_catch_is_ImageProcessorError
    by (auto simp: instantiateSharpImage_def split: sum.splits)
  with Inl show ?thesis by (simp add: convertToWebP_def webp_catch_idem)
next
  case (Inr img)
  with instantiateSharpImage_Inr [OF Inr] show ?thesis by (simp add: convertToWebP_def)
qed

lemma convertToWebPIfNeeded_unfold:
  assumes "extractFormatFromContentType ct \<noteq> ''webp''"
  shows "convertToWebPIfNeeded e b ct =
     (case convertToWebP e b of
        Inl err \<Rightarrow> Inl err
      | Inr w \<Rightarrow> Inr \<lparr>buffer = w, format = ''webp'', converted = True\<rparr>)"
proof (cases "convertToWebP e b")
  case (Inl err)
  then have "instanceof_ImageProcessorError err"
    using instantiate_catch_is_ImageProcessorError [of "x" for x]
      webp_catch_is_ImageProcessorError
    by (auto simp: convertToWebP_unfold instantiateSharpImage_def split: sum.splits)
  with Inl assms show ?thesis by (simp add: convertToWebPIfNeeded_def webp_catch_idem)
next
  case (Inr w)
  with assms show ?thesis by (simp add: convertToWebPIfNeeded_def)
qed


text \<open>
  Where the kind chosen at decode time goes: the conversion for the scan replaces it,
  the conversion for storage hands it on unchanged.
\<close>

lemma decode_failure_masked_for_the_scan:
  assumes "convertToRekognitionCompatible e b ct = Inl x"
  shows "errorType x = Some ''RekognitionCompatibilityError''"
  using assms
  by (auto simp: convertToRekognitionCompatible_def Let_def split: if_splits sum.splits)

lemma decode_failure_kept_for_storage:
  assumes "extractFormatFromContentType ct \<noteq> ''webp''"
    and "instantiateSharpImage e b = Inl x"
  shows "convertToWebPIfNeeded e b ct = Inl x"
  using assms by (simp add: convertToWebPIfNeeded_unfold convertToWebP_unfold)

section \<open>Oversized dimensions\<close>

lemma set_show_nat: "set (show_nat n) \<subseteq> set ''0123456789''"
proof (induction n rule: show_nat.induct)
  case (1 n)
  have digit: "d < 10 \<Longrightarrow> digit_char d \<in> set ''0123456789''" for d
    unfolding digit_char_def by (rule nth_mem) simp
  show ?case
  proof (cases "n < 10")
    case True
    then show ?thesis using digit [of n] by (subst show_nat.simps) simp
  next
    case False
    moreover have "n mod 10 < 10" by simp
    ultimately show ?thesis
      using "1.IH" digit [of "n mod 10"] by (subst show_nat.simps) simp
  qed
qed

lemma str_includes_set: "str_includes s pat \<Longrightarrow> set pat \<subseteq> set s"
  unfolding str_includes_sublist by (rule set_mono_sublist)

lemma dimension_message_no_b_no_y:
  "CHR ''b'' \<notin> set (dimension_message w h)" "CHR ''y'' \<notin> set (dimension_message w h)"
  using set_show_nat [of w] set_show_nat [of h] set_show_nat [of MAX_IMAGE_DIMENSION]
  by (auto simp: dimension_message_def)

lemma dimension_message_classified:
  "instantiate_catch (ImageProcessorError 413 ''ImageTooLarge'' (dimension_message w h)) =
     ImageProcessorError 413 ''ImageTooLarge''
       ''Image dimensions are too large for 24MB Lambda environment. Please reduce image dimensions and try again.''"
proof -
  have "\<not> str_includes (dimension_message w h) ''memory''"
    using str_includes_set [of "dimension_message w h" "''memory''"]
      dimension_message_no_b_no_y(2) [of w h] by auto
  moreover have "\<not> str_includes (dimension_message w h) ''buffer''"
    using str_includes_set [of "dimension_message w h" "''buffer''"]
      dimension_message_no_b_no_y(1) [of w h] by auto
  moreover have "str_includes (dimension_message w h) ''dimension''"
    by (simp add: dimension_message_def)
  ultimately show ?thesis by (simp add: instantiate_catch_def)
qed

text \<open>
  An image whose reported width or height is above 8192 is refused as too large, with
  status 413: the error thrown by the check is caught by the function's own handler
  and classified by its text.
\<close>

lemma oversized_dimension_rejected:
  assumes "sharp_metadata e enhancedOptions b = Inr \<lparr>width = Some w, height = Some h\<rparr>"
    and "0 < w" and "0 < h" and "8192 < w \<or> 8192 < h"
  shows "instantiateSharpImage e b =
     Inl (ImageProcessorError 413 ''ImageTooLarge''
       ''Image dimensions are too large for 24MB Lambda environment. Please reduce image dimensions and try again.'')"
  using assms
  by (auto simp: instantiateSharpImage_def instantiate_try_def truthy_num_def num_value_def
        MAX_IMAGE_DIMENSION_def dimension_message_classified)


section \<open>Claims about the image processor\<close>

lemma jpg_spelling_not_compatible:
  "extractFormatFromContentType ''image/jpg'' = ''jpg''"
  "extractFormatFromContentType ''image/jpg'' \<notin> set REKOGNITION_COMPATIBLE_FORMATS"
  "isSupportedFormat ''image/jpg''"
  by (simp_all add: format_evals REKOGNITION_COMPATIBLE_FORMATS_def isSupportedFormat_def
        SUPPORTED_FORMATS_def)

lemma jpg_spelling_never_passes_through:
  "convertToRekognitionCompatible e b ''image/jpg'' = Inr r \<Longrightarrow> converted r \<and> format r = ''png''"
  using convertToRekognitionCompatible_converts [of "''image/jpg''" e b r]
  by (simp add: jpg_spelling_not_compatible)

text \<open>
  Claim C5. A content type that names a scan-compatible format, the \<open>jpg\<close> spelling of
  jpeg included, is passed through with the same buffer and \<open>converted = False\<close>. The
  list of scan-compatible formats holds \<open>jpeg\<close> and \<open>png\<close> only, so the claim fails for
  the content type \<open>image/jpg\<close>, which the handler accepts as supported: such an image
  is decoded and re-encoded to PNG, and the result reports \<open>converted = True\<close>.
\<close>

theorem jpg_spelling_is_reencoded:
  "convertToRekognitionCompatible (stub_env [] []) [255, 216, 255] ''image/jpg''
     = Inr \<lparr>buffer = png_bytes, format = ''png'', converted = True\<rparr>"
  by (simp add: convertToRekognitionCompatible_def format_evals REKOGNITION_COMPATIBLE_FORMATS_def
        convertToPNG_def instantiateSharpImage_def instantiate_try_def truthy_num_def
        num_value_def MAX_IMAGE_DIMENSION_def stub_env_def)

text \<open>
  Claim C7, as stated: at decode time a memory or buffer signal comes first and gives
  \<open>MemoryLimitExceeded\<close>, before the signal of unrecognised bytes. The message with
  which the image library reports unrecognised bytes mentions a buffer, and the decode
  handler excludes it from the memory branch by an explicit guard: it is classified
  \<open>InvalidImageFormat\<close>. The same message raised by the encoder during the conversion
  to WebP, where there is no such guard, is classified \<open>MemoryLimitExceeded\<close>.
\<close>

theorem format_report_mentions_buffer_yet_invalid_format:
  "str_includes ''Input buffer contains unsupported image format'' ''buffer''
   \<and> instantiate_try stub_env_undecodable [1, 2, 3]
       = Inl (JsError ''Input buffer contains unsupported image format'')
   \<and> instantiateSharpImage stub_env_undecodable [1, 2, 3]
       = Inl (ImageProcessorError 400 ''InvalidImageFormat''
           ''The provided data is not a valid image format. Please ensure you are uploading a valid image file.'')
   \<and> convertToWebPIfNeeded stub_env_webp_format_report [1, 2, 3] ''image/png''
       = Inl (ImageProcessorError 413 ''MemoryLimitExceeded''
           ''Image is too large to convert to WebP in 24MB Lambda environment. Please reduce image size and try again.'')"
proof -
  have decode: "instantiate_try stub_env_undecodable [1, 2, 3]
                = Inl (JsError ''Input buffer contains unsupported image format'')"
    by (simp add: instantiate_try_def stub_env_undecodable_def stub_env_def)
  have kind: "instantiateSharpImage stub_env_undecodable [1, 2, 3]
       = Inl (ImageProcessorError 400 ''InvalidImageFormat''
           ''The provided data is not a valid image format. Please ensure you are uploading a valid image file.'')"
    by (simp add: instantiateSharpImage_def decode instantiate_catch_def)
  have fmt: "extractFormatFromContentType ''image/png'' \<noteq> ''webp''"
    by (simp add: format_evals)
  have inst: "instantiateSharpImage stub_env_webp_format_report [1, 2, 3] = Inr [1, 2, 3]"
    by (simp add: instantiateSharpImage_def instantiate_try_def truthy_num_def num_value_def
          MAX_IMAGE_DIMENSION_def stub_env_webp_format_report_def stub_env_def)
  have enc: "sharp_webp stub_env_webp_format_report enhancedOptions
               \<lparr>quality = Some 80, effort = None\<rparr> [1, 2, 3]
             = Inl (JsError ''Input buffer contains unsupported image format'')"
    by (simp add: stub_env_webp_format_report_def stub_env_def)
  have webp: "convertToWebPIfNeeded stub_env_webp_format_report [1, 2, 3] ''image/png''
       = Inl (ImageProcessorError 413 ''MemoryLimitExceeded''
           ''Image is too large to convert to WebP in 24MB Lambda environment. Please reduce image size and try again.'')"
    by (simp add: convertToWebPIfNeeded_unfold [OF fmt] convertToWebP_unfold inst enc
          webp_catch_def)
  have "str_includes ''Input buffer contains unsupported image format'' ''buffer''"
    by simp
  with decode kind webp show ?thesis by (intro conjI)
qed

text \<open>
  Claim C7, amended. A failure while an image is read is classified in this order: a
  message that mentions memory, or that mentions a buffer and does not contain
  \<open>unsupported image format\<close>, gives \<open>MemoryLimitExceeded\<close>; otherwise a message about
  pixels or dimensions gives \<open>ImageTooLarge\<close>; otherwise a message that contains
  \<open>unsupported image format\<close> gives \<open>InvalidImageFormat\<close>; anything else gives
  \<open>InstantiationError\<close>. A failure of the encoder during the conversion to WebP is
  classified as \<open>MemoryLimitExceeded\<close> when its message mentions memory or a buffer (any
  buffer message, without that exception), otherwise as \<open>ProcessingTimeout\<close> when it
  mentions a timeout, and as \<open>WebPConversionError\<close> otherwise.
\<close>

theorem error_kinds_in_priority_order:
  "(instantiate_try e b = Inl err \<longrightarrow>
      (\<exists>x. instantiateSharpImage e b = Inl x \<and> errorType x = Some
        (if instanceof_Error err
            \<and> (str_includes (message err) ''memory''
               \<or> (str_includes (message err) ''buffer''
                  \<and> \<not> str_includes (message err) ''unsupported image format''))
         then ''MemoryLimitExceeded''
         else if instanceof_Error err
            \<and> (str_includes (message err) ''pixel'' \<or> str_includes (message err) ''dimension'')
         then ''ImageTooLarge''
         else if instanceof_Error err \<and> str_includes (message err) ''unsupported image format''
         then ''InvalidImageFormat''
         else ''InstantiationError'')))
   \<and> (extractFormatFromContentType ct \<noteq> ''webp''
        \<and> instantiateSharpImage e b = Inr img
        \<and> sharp_webp e enhancedOptions \<lparr>quality = Some 80, effort = None\<rparr> img = Inl err'
        \<and> \<not> instanceof_ImageProcessorError err' \<longrightarrow>
      (\<exists>x. convertToWebPIfNeeded e b ct = Inl x \<and> errorType x = Some
        (if instanceof_Error err'
            \<and> (str_includes (message err') ''memory'' \<or> str_includes (message err') ''buffer'')
         then ''MemoryLimitExceeded''
         else if instanceof_Error err'
            \<and> (str_includes (message err') ''timeout'' \<or> str_includes (message err') ''timed out'')
         then ''ProcessingTimeout''
         else ''WebPConversionError'')))"
proof (intro conjI impI)
  assume "instantiate_try e b = Inl err"
  then have "instantiateSharpImage e b = Inl (instantiate_catch err)"
    by (simp add: instantiateSharpImage_def)
  moreover have "errorType (instantiate_catch err) = Some
        (if instanceof_Error err
            \<and> (str_includes (message err) ''memory''
               \<or> (str_includes (message err) ''buffer''
                  \<and> \<not> str_includes (message err) ''unsupported image format''))
         then ''MemoryLimitExceeded''
         else if instanceof_Error err
            \<and> (str_includes (message err) ''pixel'' \<or> str_includes (message err) ''dimension'')
         then ''ImageTooLarge''
         else if instanceof_Error err \<and> str_includes (message err) ''unsupported image format''
         then ''InvalidImageFormat''
         else ''InstantiationError'')"
    using includes_unsupported_phrase [of "message err"]
    by (auto simp: instantiate_catch_def)
  ultimately show "\<exists>x. instantiateSharpImage e b = Inl x \<and> errorType x = Some
        (if instanceof_Error err
            \<and> (str_includes (message err) ''memory''
               \<or> (str_includes (message err) ''buffer''
                  \<and> \<not> str_includes (message err) ''unsupported image format''))
         then ''MemoryLimitExceeded''
         else if instanceof_Error err
            \<and> (str_includes (message err) ''pixel'' \<or> str_includes (message err) ''dimension'')
         then ''ImageTooLarge''
         else if instanceof_Error err \<and> str_includes (message err) ''unsupported image format''
         then ''InvalidImageFormat''
         else ''InstantiationError'')"
    by blast
next
  assume h: "extractFormatFromContentType ct \<noteq> ''webp''
        \<and> instantiateSharpImage e b = Inr img
        \<and> sharp_webp e enhancedOptions \<lparr>quality = Some 80, effort = None\<rparr> img = Inl err'
        \<and> \<not> instanceof_ImageProcessorError err'"
  then have "img = b" using instantiateSharpImage_Inr by blast
  with h have "convertToWebP e b = Inl (webp_catch err')"
    by (simp add: convertToWebP_unfold)
  with h have "convertToWebPIfNeeded e b ct = Inl (webp_catch err')"
    by (simp add: convertToWebPIfNeeded_unfold)
  moreover from h have "errorType (webp_catch err') = Some
        (if instanceof_Error err'
            \<and> (str_includes (message err') ''memory'' \<or> str_includes (message err') ''buffer'')
         then ''MemoryLimitExceeded''
         else if instanceof_Error err'
            \<and> (str_includes (message err') ''timeout'' \<or> str_includes (message err') ''timed out'')
         then ''ProcessingTimeout''
         else ''WebPConversionError'')"
    by (simp add: webp_catch_def)
  ultimately show "\<exists>x. convertToWebPIfNeeded e b ct = Inl x \<and> errorType x = Some
        (if instanceof_Error err'
            \<and> (str_includes (message err') ''memory'' \<or> str_includes (message err') ''buffer'')
         then ''MemoryLimitExceeded''
         else if instanceof_Error err'
            \<and> (str_includes (message err') ''timeout'' \<or> str_includes (message err') ''timed out'')
         then ''ProcessingTimeout''
         else ''WebPConversionError'')"
    by blast
qed

theorem error_kinds_in_priority_order_witness:
  "(\<exists>x. instantiateSharpImage stub_env_undecodable [1, 2, 3] = Inl x
        \<and> errorType x = Some ''InvalidImageFormat'')
   \<and> (\<exists>x. convertToWebPIfNeeded stub_env_webp_timeout [1, 2, 3] ''image/png'' = Inl x
        \<and> errorType x = Some ''ProcessingTimeout'')"
proof -
  have decode: "instantiate_try stub_env_undecodable [1, 2, 3]
                = Inl (JsError ''Input buffer contains unsupported image format'')"
    by (simp add: instantiate_try_def stub_env_undecodable_def stub_env_def)
  have fmt: "extractFormatFromContentType ''image/png'' \<noteq> ''webp''"
    by (simp add: format_evals)
  have inst: "instantiateSharpImage stub_env_webp_timeout [1, 2, 3] = Inr [1, 2, 3]"
    by (simp add: instantiateSharpImage_def instantiate_try_def truthy_num_def num_value_def
          MAX_IMAGE_DIMENSION_def stub_env_webp_timeout_def stub_env_def)
  have enc: "sharp_webp stub_env_webp_timeout enhancedOptions
               \<lparr>quality = Some 80, effort = None\<rparr> [1, 2, 3] = Inl (JsError ''operation timed out'')"
    by (simp add: stub_env_webp_timeout_def stub_env_def)
  from error_kinds_in_priority_order
         [of stub_env_undecodable "[1, 2, 3]"
             "JsError ''Input buffer contains unsupported image format''"]
       decode
  have first: "\<exists>x. instantiateSharpImage stub_env_undecodable [1, 2, 3] = Inl x
                 \<and> errorType x = Some ''InvalidImageFormat''"
    by simp
  from error_kinds_in_priority_order
         [of stub_env_webp_timeout "[1, 2, 3]" _ "''image/png''" "[1, 2, 3]"
             "JsError ''operation timed out''"]
       fmt inst enc
  have second: "\<exists>x. convertToWebPIfNeeded stub_env_webp_timeout [1, 2, 3] ''image/png'' = Inl x
                 \<and> errorType x = Some ''ProcessingTimeout''"
    by simp
  from first second show ?thesis by blast
qed

text \<open>
  Claim C8. When the storage-stage conversion re-encodes an image to WebP it uses
  quality 80 and effort 4, and quality 75 and effort 5 for an input longer than 1 MiB.
  The encoder is asked for quality 80 whatever the length of the input, and no effort
  is passed to it: an input of 1 MiB and one byte is encoded with quality 80 (the
  encoder of this run answers with the quality and the effort it was given, 0 for an
  absent one).
\<close>

theorem large_input_encoded_with_quality_80:
  "convertToWebP stub_env_echo_webp (replicate 1048577 0) = Inr [80, 0]"
  by (simp add: convertToWebP_def instantiateSharpImage_def instantiate_try_def truthy_num_def
        num_value_def MAX_IMAGE_DIMENSION_def stub_env_echo_webp_def stub_env_def)


section \<open>Properties of the scan client\<close>

lemma delete_calls_simps:
  "delete_calls [] = 0"
  "delete_calls (evs @ evs') = delete_calls evs + delete_calls evs'"
  "delete_calls (CallS3Delete k # evs) = Suc (delete_calls evs)"
  "delete_calls (Logged l m # evs) = delete_calls evs"
  "delete_calls (CallS3Put k b c # evs) = delete_calls evs"
  "delete_calls (CallDetectModerationLabels k r # evs) = delete_calls evs"
  "delete_calls (CallDetectLabels k n r # evs) = delete_calls evs"
  "delete_calls (CallBackblazePut k b c # evs) = delete_calls evs"
  by (simp_all add: delete_calls_def)

text \<open>
  The result of the \<^verbatim>\<open>try\<close> block of the hybrid client, as a function of what the
  four calls answer: the first refusal is thrown, and the delete is one of the calls
  that can refuse.
\<close>

lemma scan_try_hybrid_result:
  "snd (scan_try_hybrid e b ct k evs0) =
     (case s3_putObject e k b ct of
        Some err \<Rightarrow> Inl err
      | None \<Rightarrow>
       (case rekognition_detectModerationLabels e k 70 of
          Inl err \<Rightarrow> Inl err
        | Inr ml \<Rightarrow>
         (case rekognition_detectLabels e k 20 50 of
            Inl err \<Rightarrow> Inl err
          | Inr ol \<Rightarrow>
           (case s3_deleteObject e (delete_calls evs0) k of
              Some err \<Rightarrow> Inl err
            | None \<Rightarrow>
                Inr \<lparr>passed = \<not> hasInappropriateContent (labels_or_empty ml),
                     moderationLabels = label_names (labels_or_empty ml),
                     confidence = max_confidence (labels_or_empty ml), error = None\<rparr>))))"
proof (cases "s3_putObject e k b ct")
  case (Some err)
  then show ?thesis by (simp add: scan_try_hybrid_def)
next
  case None
  note put = this
  show ?thesis
  proof (cases "rekognition_detectModerationLabels e k 70")
    case (Inl err)
    with put show ?thesis by (simp add: scan_try_hybrid_def)
  next
    case (Inr ml)
    note det = this
    show ?thesis
    proof (cases "rekognition_detectLabels e k 20 50")
      case (Inl err)
      with put det show ?thesis by (simp add: scan_try_hybrid_def)
    next
      case (Inr ol)
      with put det show ?thesis
        by (simp add: scan_try_hybrid_def delete_calls_simps Let_def split: option.split)
    qed
  qed
qed

text \<open>
  The calls of the \<^verbatim>\<open>try\<close> block: no upload to the permanent store, and one delete
  exactly when the three calls before it were accepted.
\<close>

lemma scan_try_hybrid_events:
  "\<exists>evs. fst (scan_try_hybrid e b ct k evs0) = evs0 @ evs
     \<and> \<not> list_ex is_backblaze_put evs
     \<and> delete_calls evs =
         (if s3_putObject e k b ct = None
             \<and> \<not> isl (rekognition_detectModerationLabels e k 70)
             \<and> \<not> isl (rekognition_detectLabels e k 20 50) then 1 else 0)"
proof (cases "s3_putObject e k b ct")
  case (Some err)
  then show ?thesis by (simp add: scan_try_hybrid_def delete_calls_simps)
next
  case None
  note put = this
  show ?thesis
  proof (cases "rekognition_detectModerationLabels e k 70")
    case (Inl err)
    with put show ?thesis by (simp add: scan_try_hybrid_def delete_calls_simps)
  next
    case (Inr ml)
    note det = this
    show ?thesis
    proof (cases "rekognition_detectLabels e k 20 50")
      case (Inl err)
      with put det show ?thesis by (simp add: scan_try_hybrid_def delete_calls_simps)
    next
      case (Inr ol)
      with put det show ?thesis
        by (simp add: scan_try_hybrid_def delete_calls_simps Let_def split: option.split)
    qed
  qed
qed


text \<open>The same two facts for the client of \<^verbatim>\<open>src/clients/rekognition.ts\<close>.\<close>

lemma scan_try_result:
  "snd (scan_try e b ct k evs0) =
     (case s3_putObject e k b ct of
        Some err \<Rightarrow> Inl err
      | None \<Rightarrow>
       (case rekognition_detectModerationLabels e k 50 of
          Inl err \<Rightarrow> Inl err
        | Inr ml \<Rightarrow>
           (case s3_deleteObject e (delete_calls evs0) k of
              Some err \<Rightarrow> Inl err
            | None \<Rightarrow>
                Inr \<lparr>passed = \<not> hasExplicitContent (labels_or_empty ml),
                     moderationLabels = label_names (labels_or_empty ml),
                     confidence = max_confidence (labels_or_empty ml), error = None\<rparr>)))"
proof (cases "s3_putObject e k b ct")
  case (Some err)
  then show ?thesis by (simp add: scan_try_def)
next
  case None
  note put = this
  show ?thesis
  proof (cases "rekognition_detectModerationLabels e k 50")
    case (Inl err)
    with put show ?thesis by (simp add: scan_try_def)
  next
    case (Inr ml)
    with put show ?thesis
      by (simp add: scan_try_def delete_calls_simps Let_def split: option.split)
  qed
qed

lemma scan_try_events:
  "\<exists>evs. fst (scan_try e b ct k evs0) = evs0 @ evs
     \<and> \<not> list_ex is_backblaze_put evs
     \<and> delete_calls evs =
         (if s3_putObject e k b ct = None
             \<and> \<not> isl (rekognition_detectModerationLabels e k 50) then 1 else 0)"
proof (cases "s3_putObject e k b ct")
  case (Some err)
  then show ?thesis by (simp add: scan_try_def delete_calls_simps)
next
  case None
  note put = this
  show ?thesis
  proof (cases "rekognition_detectModerationLabels e k 50")
    case (Inl err)
    with put show ?thesis by (simp add: scan_try_def delete_calls_simps)
  next
    case (Inr ml)
    with put show ?thesis
      by (simp add: scan_try_def delete_calls_simps Let_def split: option.split)
  qed
qed

text \<open>The \<^verbatim>\<open>catch\<close> clause: one more delete, no upload, and a failed verdict.\<close>

lemma scan_catch_result: "snd (scan_catch e k evs err) = caught_verdict err"
  by (simp add: scan_catch_def)

lemma scan_catch_deletes:
  "delete_calls (fst (scan_catch e k evs err)) = Suc (delete_calls evs)"
  by (simp add: scan_catch_def delete_calls_simps split: option.split)

lemma scan_catch_no_upload:
  "list_ex is_backblaze_put (fst (scan_catch e k evs err)) = list_ex is_backblaze_put evs"
  by (simp add: scan_catch_def split: option.split)

text \<open>The block and its handler together.\<close>

lemma scan_staged_hybrid_result:
  "snd (scan_staged_hybrid e b ct evs0) =
     (case snd (scan_try_hybrid e b ct (tempKey_of e ct) evs0) of
        Inl err \<Rightarrow> caught_verdict err
      | Inr r \<Rightarrow> r)"
  by (cases "scan_try_hybrid e b ct (tempKey_of e ct) evs0")
     (simp add: scan_staged_hybrid_def scan_catch_result split: sum.split)

lemma scan_staged_hybrid_deletes:
  "delete_calls (fst (scan_staged_hybrid e b ct evs0)) = delete_calls evs0 +
     (if s3_putObject e (tempKey_of e ct) b ct = None
         \<and> \<not> isl (rekognition_detectModerationLabels e (tempKey_of e ct) 70)
         \<and> \<not> isl (rekognition_detectLabels e (tempKey_of e ct) 20 50)
         \<and> s3_deleteObject e (delete_calls evs0) (tempKey_of e ct) \<noteq> None
      then 2 else 1)"
proof -
  obtain evs where evs:
    "fst (scan_try_hybrid e b ct (tempKey_of e ct) evs0) = evs0 @ evs"
    "delete_calls evs =
       (if s3_putObject e (tempKey_of e ct) b ct = None
           \<and> \<not> isl (rekognition_detectModerationLabels e (tempKey_of e ct) 70)
           \<and> \<not> isl (rekognition_detectLabels e (tempKey_of e ct) 20 50) then 1 else 0)"
    using scan_try_hybrid_events [of e b ct "tempKey_of e ct" evs0] by blast
  show ?thesis
  proof (cases "snd (scan_try_hybrid e b ct (tempKey_of e ct) evs0)")
    case (Inl err)
    then have "scan_try_hybrid e b ct (tempKey_of e ct) evs0 = (evs0 @ evs, Inl err)"
      using evs(1) by (simp add: prod_eq_iff)
    then have "delete_calls (fst (scan_staged_hybrid e b ct evs0))
               = Suc (delete_calls evs0 + delete_calls evs)"
      by (simp add: scan_staged_hybrid_def scan_catch_deletes delete_calls_simps)
    moreover from Inl
    have "s3_putObject e (tempKey_of e ct) b ct = None
           \<and> \<not> isl (rekognition_detectModerationLabels e (tempKey_of e ct) 70)
           \<and> \<not> isl (rekognition_detectLabels e (tempKey_of e ct) 20 50)
          \<Longrightarrow> s3_deleteObject e (delete_calls evs0) (tempKey_of e ct) \<noteq> None"
      by (auto simp: scan_try_hybrid_result split: option.splits sum.splits)
    ultimately show ?thesis using evs(2) by auto
  next
    case (Inr r)
    then have "scan_try_hybrid e b ct (tempKey_of e ct) evs0 = (evs0 @ evs, Inr r)"
      using evs(1) by (simp add: prod_eq_iff)
    then have "delete_calls (fst (scan_staged_hybrid e b ct evs0))
               = delete_calls evs0 + delete_calls evs"
      by (simp add: scan_staged_hybrid_def delete_calls_simps)
    moreover from Inr
    have "s3_putObject e (tempKey_of e ct) b ct = None
           \<and> \<not> isl (rekognition_detectModerationLabels e (tempKey_of e ct) 70)
           \<and> \<not> isl (rekognition_detectLabels e (tempKey_of e ct) 20 50)
           \<and> s3_deleteObject e (delete_calls evs0) (tempKey_of e ct) = None"
      by (auto simp: scan_try_hybrid_result split: option.splits sum.splits)
    ultimately show ?thesis using evs(2) by auto
  qed
qed

lemma scan_staged_hybrid_no_upload:
  "list_ex is_backblaze_put (fst (scan_staged_hybrid e b ct evs0))
     = list_ex is_backblaze_put evs0"
proof -
  obtain evs where evs:
    "fst (scan_try_hybrid e b ct (tempKey_of e ct) evs0) = evs0 @ evs"
    "\<not> list_ex is_backblaze_put evs"
    using scan_try_hybrid_events [of e b ct "tempKey_of e ct" evs0] by blast
  show ?thesis
  proof (cases "snd (scan_try_hybrid e b ct (tempKey_of e ct) evs0)")
    case (Inl err)
    then have "scan_try_hybrid e b ct (tempKey_of e ct) evs0 = (evs0 @ evs, Inl err)"
      using evs(1) by (simp add: prod_eq_iff)
    then show ?thesis
      using evs(2) by (simp add: scan_staged_hybrid_def scan_catch_no_upload)
  next
    case (Inr r)
    then have "scan_try_hybrid e b ct (tempKey_of e ct) evs0 = (evs0 @ evs, Inr r)"
      using evs(1) by (simp add: prod_eq_iff)
    then show ?thesis
      using evs(2) by (simp add: scan_staged_hybrid_def)
  qed
qed

lemma scan_staged_result:
  "snd (scan_staged e b ct evs0) =
     (case snd (scan_try e b ct (tempKey_of e ct) evs0) of
        Inl err \<Rightarrow> caught_verdict err
      | Inr r \<Rightarrow> r)"
  by (cases "scan_try e b ct (tempKey_of e ct) evs0")
     (simp add: scan_staged_def scan_catch_result split: sum.split)

lemma scan_staged_deletes:
  "delete_calls (fst (scan_staged e b ct evs0)) = delete_calls evs0 +
     (if s3_putObject e (tempKey_of e ct) b ct = None
         \<and> \<not> isl (rekognition_detectModerationLabels e (tempKey_of e ct) 50)
         \<and> s3_deleteObject e (delete_calls evs0) (tempKey_of e ct) \<noteq> None
      then 2 else 1)"
proof -
  obtain evs where evs:
    "fst (scan_try e b ct (tempKey_of e ct) evs0) = evs0 @ evs"
    "delete_calls evs =
       (if s3_putObject e (tempKey_of e ct) b ct = None
           \<and> \<not> isl (rekognition_detectModerationLabels e (tempKey_of e ct) 50) then 1 else 0)"
    using scan_try_events [of e b ct "tempKey_of e ct" evs0] by blast
  show ?thesis
  proof (cases "snd (scan_try e b ct (tempKey_of e ct) evs0)")
    case (Inl err)
    then have "scan_try e b ct (tempKey_of e ct) evs0 = (evs0 @ evs, Inl err)"
      using evs(1) by (simp add: prod_eq_iff)
    then have "delete_calls (fst (scan_staged e b ct evs0))
               = Suc (delete_calls evs0 + delete_calls evs)"
      by (simp add: scan_staged_def scan_catch_deletes delete_calls_simps)
    moreover from Inl
    have "s3_putObject e (tempKey_of e ct) b ct = None
           \<and> \<not> isl (rekognition_detectModerationLabels e (tempKey_of e ct) 50)
          \<Longrightarrow> s3_deleteObject e (delete_calls evs0) (tempKey_of e ct) \<noteq> None"
      by (auto simp: scan_try_result split: option.splits sum.splits)
    ultimately show ?thesis using evs(2) by auto
  next
    case (Inr r)
    then have "scan_try e b ct (tempKey_of e ct) evs0 = (evs0 @ evs, Inr r)"
      using evs(1) by (simp add: prod_eq_iff)
    then have "delete_calls (fst (scan_staged e b ct evs0))
               = delete_calls evs0 + delete_calls evs"
      by (simp add: scan_staged_def delete_calls_simps)
    moreover from Inr
    have "s3_putObject e (tempKey_of e ct) b ct = None
           \<and> \<not> isl (rekognition_detectModerationLabels e (tempKey_of e ct) 50)
           \<and> s3_deleteObject e (delete_calls evs0) (tempKey_of e ct) = None"
      by (auto simp: scan_try_result split: option.splits sum.splits)
    ultimately show ?thesis using evs(2) by auto
  qed
qed

lemma scan_staged_no_upload:
  "list_ex is_backblaze_put (fst (scan_staged e b ct evs0))
     = list_ex is_backblaze_put evs0"
proof -
  obtain evs where evs:
    "fst (scan_try e b ct (tempKey_of e ct) evs0) = evs0 @ evs"
    "\<not> list_ex is_backblaze_put evs"
    using scan_try_events [of e b ct "tempKey_of e ct" evs0] by blast
  show ?thesis
  proof (cases "snd (scan_try e b ct (tempKey_of e ct) evs0)")
    case (Inl err)
    then have "scan_try e b ct (tempKey_of e ct) evs0 = (evs0 @ evs, Inl err)"
      using evs(1) by (simp add: prod_eq_iff)
    then show ?thesis
      using evs(2) by (simp add: scan_staged_def scan_catch_no_upload)
  next
    case (Inr r)
    then have "scan_try e b ct (tempKey_of e ct) evs0 = (evs0 @ evs, Inr r)"
      using evs(1) by (simp add: prod_eq_iff)
    then show ?thesis
      using evs(2) by (simp add: scan_staged_def)
  qed
qed



text \<open>The two clients as a whole.\<close>

lemma fst_case_Inr: "fst (case p of (evs, r) \<Rightarrow> (evs, Inr r)) = fst p"
  by (cases p) simp

lemma snd_case_Inr: "snd (case p of (evs, r) \<Rightarrow> (evs, Inr r)) = Inr (snd p)"
  by (cases p) simp

lemma hybrid_scan_unfold:
  "RekognitionClient_scanImageForModeration_hybrid e b ct =
     (fst (scan_staged_hybrid e b ct [Logged Info ''Starting content moderation scan'']),
      Inr (snd (scan_staged_hybrid e b ct [Logged Info ''Starting content moderation scan''])))"
  by (simp add: RekognitionClient_scanImageForModeration_hybrid_def split: prod.split)

lemma plain_scan_unfold:
  assumes "ct = ''image/jpeg'' \<or> ct = ''image/png''"
  shows "RekognitionClient_scanImageForModeration e b ct =
     (fst (scan_staged e b ct [Logged Info ''Starting content moderation scan'']),
      Inr (snd (scan_staged e b ct [Logged Info ''Starting content moderation scan''])))"
  using assms
  by (auto simp: RekognitionClient_scanImageForModeration_def split: prod.split)

text \<open>
  How often the delete of the staged object is called: once, except that it is called
  a second time when the delete at the end of the \<^verbatim>\<open>try\<close> block is itself refused.
\<close>

lemma hybrid_scan_delete_calls:
  "delete_calls (fst (RekognitionClient_scanImageForModeration_hybrid e b ct)) =
     (if s3_putObject e (tempKey_of e ct) b ct = None
         \<and> \<not> isl (rekognition_detectModerationLabels e (tempKey_of e ct) 70)
         \<and> \<not> isl (rekognition_detectLabels e (tempKey_of e ct) 20 50)
         \<and> s3_deleteObject e 0 (tempKey_of e ct) \<noteq> None
      then 2 else 1)"
  by (simp add: hybrid_scan_unfold scan_staged_hybrid_deletes delete_calls_simps)

lemma plain_scan_delete_calls:
  assumes "ct = ''image/jpeg'' \<or> ct = ''image/png''"
  shows "delete_calls (fst (RekognitionClient_scanImageForModeration e b ct)) =
     (if s3_putObject e (tempKey_of e ct) b ct = None
         \<and> \<not> isl (rekognition_detectModerationLabels e (tempKey_of e ct) 50)
         \<and> s3_deleteObject e 0 (tempKey_of e ct) \<noteq> None
      then 2 else 1)"
  by (simp add: plain_scan_unfold [OF assms] scan_staged_deletes delete_calls_simps)

text \<open>
  The client of \<^verbatim>\<open>src/clients/rekognition.ts\<close> converts an image of any other content
  type to PNG first. When that conversion fails the method throws before anything is
  staged, so no call is made on the store at all. The handler only ever passes
  \<open>image/jpeg\<close> or \<open>image/png\<close>.
\<close>

lemma plain_scan_conversion_failure:
  assumes "ct \<noteq> ''image/jpeg''" and "ct \<noteq> ''image/png''"
    and "sharp_png e
           \<lparr>failOnError = False, limitInputPixels = 268402689, sequentialRead = None\<rparr>
           \<lparr>compressionLevel = None, adaptiveFiltering = None\<rparr> b = Inl err"
  shows "delete_calls (fst (RekognitionClient_scanImageForModeration e b ct)) = 0"
    and "snd (RekognitionClient_scanImageForModeration e b ct) =
           Inl (JsError (''Failed to convert image to PNG for Rekognition: '' @ String_of err))"
  using assms
  by (simp_all add: RekognitionClient_scanImageForModeration_def delete_calls_simps)

lemma handler_scan_content_type:
  assumes "convertToRekognitionCompatible e b ct = Inr img"
  shows "getMimeType (format img) = ''image/jpeg'' \<or> getMimeType (format img) = ''image/png''"
  using assms
  by (auto simp: convertToRekognitionCompatible_def Let_def REKOGNITION_COMPATIBLE_FORMATS_def
        getMimeType_def split: if_splits sum.splits)

lemma scan_no_upload:
  "\<not> list_ex is_backblaze_put (fst (RekognitionClient_scan v e b ct))"
proof (cases v)
  case Hybrid
  then show ?thesis
    by (simp add: RekognitionClient_scan_def hybrid_scan_unfold scan_staged_hybrid_no_upload)
next
  case Plain
  show ?thesis
  proof (cases "ct = ''image/jpeg'' \<or> ct = ''image/png''")
    case True
    then show ?thesis
      by (simp add: RekognitionClient_scan_def Plain plain_scan_unfold scan_staged_no_upload)
  next
    case False
    show ?thesis
    proof (cases "sharp_png e
                    \<lparr>failOnError = False, limitInputPixels = 268402689, sequentialRead = None\<rparr>
                    \<lparr>compressionLevel = None, adaptiveFiltering = None\<rparr> b")
      case (Inl err)
      with False show ?thesis
        by (simp add: RekognitionClient_scan_def Plain RekognitionClient_scanImageForModeration_def)
    next
      case (Inr png)
      with False show ?thesis
        by (simp add: RekognitionClient_scan_def Plain RekognitionClient_scanImageForModeration_def
              fst_case_Inr scan_staged_no_upload)
    qed
  qed
qed

lemma hasInappropriateContent_iff:
  "hasInappropriateContent ls \<longleftrightarrow>
     (\<exists>l \<in> set ls. label_name l \<in> {''Explicit Nudity'', ''Visually Disturbing'', ''Hate Symbols'',
          ''Gambling'', ''Drugs'', ''Tobacco'', ''Alcohol'', ''Rude Gestures'', ''Adult Content''}
        \<and> 70 \<le> label_confidence l)"
  by (simp add: hasInappropriateContent_def blockedContentLabels_def list_ex_iff)

lemma hasExplicitContent_iff:
  "hasExplicitContent ls \<longleftrightarrow>
     (\<exists>l \<in> set ls. label_name l \<in> {''Explicit Nudity'', ''Violence'', ''Visually Disturbing'',
          ''Hate Symbols'', ''Gambling'', ''Drugs'', ''Tobacco'', ''Alcohol'', ''Rude Gestures'',
          ''Adult Content''}
        \<and> 70 \<le> label_confidence l)"
  by (simp add: hasExplicitContent_def explicitContentLabels_def list_ex_iff)

lemma hybrid_completed_verdict:
  assumes "snd (RekognitionClient_scanImageForModeration_hybrid e b ct) = Inr r"
    and "error r = None"
  shows "\<exists>ml. rekognition_detectModerationLabels e (tempKey_of e ct) 70 = Inr ml
           \<and> passed r = (\<not> hasInappropriateContent (labels_or_empty ml))"
  using assms
  by (auto simp: hybrid_scan_unfold scan_staged_hybrid_result scan_try_hybrid_result
        caught_verdict_def split: option.splits sum.splits)

lemma plain_completed_verdict:
  assumes "ct = ''image/jpeg'' \<or> ct = ''image/png''"
    and "snd (RekognitionClient_scanImageForModeration e b ct) = Inr r"
    and "error r = None"
  shows "\<exists>ml. rekognition_detectModerationLabels e (tempKey_of e ct) 50 = Inr ml
           \<and> passed r = (\<not> hasExplicitContent (labels_or_empty ml))"
  using assms(2,3)
  by (auto simp: plain_scan_unfold [OF assms(1)] scan_staged_result scan_try_result
        caught_verdict_def split: option.splits sum.splits)


text \<open>
  The same for every content type: any other type is converted to PNG first and then
  scanned under \<open>image/png\<close>, with the same staging key.
\<close>

lemma plain_scan_converted:
  assumes "ct \<noteq> ''image/jpeg''" and "ct \<noteq> ''image/png''"
    and "sharp_png e
           \<lparr>failOnError = False, limitInputPixels = 268402689, sequentialRead = None\<rparr>
           \<lparr>compressionLevel = None, adaptiveFiltering = None\<rparr> b = Inr png"
  shows "snd (RekognitionClient_scanImageForModeration e b ct) =
           Inr (snd (scan_staged e png ''image/png''
                 [Logged Info ''Starting content moderation scan'',
                  Logged Info ''Converting image to PNG for Rekognition compatibility'',
                  Logged Info ''Image converted to PNG successfully for Rekognition'']))"
  using assms
  by (simp add: RekognitionClient_scanImageForModeration_def snd_case_Inr)


lemma tempKey_of_not_jpeg:
  "ct \<noteq> ''image/jpeg'' \<Longrightarrow> tempKey_of e ct = tempKey_of e ''image/png''"
  by (simp add: tempKey_of_def)

lemma scan_staged_completed_verdict:
  assumes "snd (scan_staged e b ct evs0) = r" and "error r = None" and "delete_calls evs0 = 0"
  shows "\<exists>ml. rekognition_detectModerationLabels e (tempKey_of e ct) 50 = Inr ml
           \<and> passed r = (\<not> hasExplicitContent (labels_or_empty ml))"
  using assms
  by (auto simp: scan_staged_result scan_try_result caught_verdict_def
        split: option.splits sum.splits)

lemma plain_completed_verdict_any_type:
  assumes "snd (RekognitionClient_scanImageForModeration e b ct) = Inr r"
    and "error r = None"
  shows "\<exists>ml. rekognition_detectModerationLabels e (tempKey_of e ct) 50 = Inr ml
           \<and> passed r = (\<not> hasExplicitContent (labels_or_empty ml))"
proof (cases "ct = ''image/jpeg'' \<or> ct = ''image/png''")
  case True
  from plain_completed_verdict [OF True assms] show ?thesis .
next
  case False
  then have ct: "ct \<noteq> ''image/jpeg''" "ct \<noteq> ''image/png''" by simp_all
  have key: "tempKey_of e ct = tempKey_of e ''image/png''"
    using ct(1) by (rule tempKey_of_not_jpeg)
  show ?thesis
  proof (cases "sharp_png e
                  \<lparr>failOnError = False, limitInputPixels = 268402689, sequentialRead = None\<rparr>
                  \<lparr>compressionLevel = None, adaptiveFiltering = None\<rparr> b")
    case (Inl err)
    from plain_scan_conversion_failure(2) [OF ct Inl] assms(1) show ?thesis by simp
  next
    case (Inr png)
    let ?evs = "[Logged Info ''Starting content moderation scan'',
                  Logged Info ''Converting image to PNG for Rekognition compatibility'',
                  Logged Info ''Image converted to PNG successfully for Rekognition'']"
    from plain_scan_converted [OF ct Inr] assms(1)
    have r: "snd (scan_staged e png ''image/png'' ?evs) = r" by simp
    have dc: "delete_calls ?evs = 0" by (simp add: delete_calls_simps)
    from scan_staged_completed_verdict [OF r assms(2) dc]
    show ?thesis by (simp only: key)
  qed
qed


lemma hybrid_scan_ignores_object_labels:
  assumes "rekognition_detectLabels e (tempKey_of e ct) 20 50 = Inr ol"
  shows "snd (RekognitionClient_scanImageForModeration_hybrid e b ct) =
         snd (RekognitionClient_scanImageForModeration_hybrid
                (e\<lparr>rekognition_detectLabels := (\<lambda>k n m. Inr None)\<rparr>) b ct)"
proof -
  have key: "tempKey_of (e\<lparr>rekognition_detectLabels := (\<lambda>k n m. Inr None)\<rparr>) ct = tempKey_of e ct"
    by (simp add: tempKey_of_def)
  show ?thesis
    using assms
    by (simp add: hybrid_scan_unfold scan_staged_hybrid_result scan_try_hybrid_result key
          split: option.split sum.split)
qed

text \<open>Every scan begins by staging the bytes it was given under the content type it was given.\<close>

lemma scan_try_starts_with_put:
  "prefix (evs0 @ [CallS3Put k b ct]) (fst (scan_try e b ct k evs0))"
proof (cases "s3_putObject e k b ct")
  case (Some err)
  then show ?thesis by (simp add: scan_try_def)
next
  case None
  note put = this
  show ?thesis
  proof (cases "rekognition_detectModerationLabels e k 50")
    case (Inl err)
    with put show ?thesis by (simp add: scan_try_def)
  next
    case (Inr ml)
    with put show ?thesis
      by (simp add: scan_try_def Let_def split: option.split)
  qed
qed

lemma scan_try_hybrid_starts_with_put:
  "prefix (evs0 @ [CallS3Put k b ct]) (fst (scan_try_hybrid e b ct k evs0))"
proof (cases "s3_putObject e k b ct")
  case (Some err)
  then show ?thesis by (simp add: scan_try_hybrid_def)
next
  case None
  note put = this
  show ?thesis
  proof (cases "rekognition_detectModerationLabels e k 70")
    case (Inl err)
    with put show ?thesis by (simp add: scan_try_hybrid_def)
  next
    case (Inr ml)
    note det = this
    show ?thesis
    proof (cases "rekognition_detectLabels e k 20 50")
      case (Inl err)
      with put det show ?thesis by (simp add: scan_try_hybrid_def)
    next
      case (Inr ol)
      with put det show ?thesis
        by (simp add: scan_try_hybrid_def Let_def split: option.split)
    qed
  qed
qed

lemma scan_catch_extends: "prefix evs (fst (scan_catch e k evs err))"
  by (simp add: scan_catch_def)

lemma scan_staged_starts_with_put:
  "prefix (evs0 @ [CallS3Put (tempKey_of e ct) b ct]) (fst (scan_staged e b ct evs0))"
proof -
  obtain evs res where t: "scan_try e b ct (tempKey_of e ct) evs0 = (evs, res)"
    by (cases "scan_try e b ct (tempKey_of e ct) evs0")
  with scan_try_starts_with_put [of evs0 "tempKey_of e ct" b ct e]
  have p: "prefix (evs0 @ [CallS3Put (tempKey_of e ct) b ct]) evs" by simp
  show ?thesis
  proof (cases res)
    case (Inl err)
    with t have "fst (scan_staged e b ct evs0) = fst (scan_catch e (tempKey_of e ct) evs err)"
      by (simp add: scan_staged_def)
    with p scan_catch_extends [of evs e "tempKey_of e ct" err] show ?thesis
      by (metis prefix_order.trans)
  next
    case (Inr r)
    with t p show ?thesis by (simp add: scan_staged_def)
  qed
qed

lemma scan_staged_hybrid_starts_with_put:
  "prefix (evs0 @ [CallS3Put (tempKey_of e ct) b ct]) (fst (scan_staged_hybrid e b ct evs0))"
proof -
  obtain evs res where t: "scan_try_hybrid e b ct (tempKey_of e ct) evs0 = (evs, res)"
    by (cases "scan_try_hybrid e b ct (tempKey_of e ct) evs0")
  with scan_try_hybrid_starts_with_put [of evs0 "tempKey_of e ct" b ct e]
  have p: "prefix (evs0 @ [CallS3Put (tempKey_of e ct) b ct]) evs" by simp
  show ?thesis
  proof (cases res)
    case (Inl err)
    with t have "fst (scan_staged_hybrid e b ct evs0)
                 = fst (scan_catch e (tempKey_of e ct) evs err)"
      by (simp add: scan_staged_hybrid_def)
    with p scan_catch_extends [of evs e "tempKey_of e ct" err] show ?thesis
      by (metis prefix_order.trans)
  next
    case (Inr r)
    with t p show ?thesis by (simp add: scan_staged_hybrid_def)
  qed
qed

lemma client_scan_starts_with_put:
  assumes "ct = ''image/jpeg'' \<or> ct = ''image/png''"
  shows "prefix [Logged Info ''Starting content moderation scan'',
                 CallS3Put (tempKey_of e ct) b ct]
           (fst (RekognitionClient_scan v e b ct))"
proof (cases v)
  case Plain
  with scan_staged_starts_with_put [of "[Logged Info ''Starting content moderation scan'']" e ct b]
  show ?thesis
    by (simp add: RekognitionClient_scan_def plain_scan_unfold [OF assms])
next
  case Hybrid
  with scan_staged_hybrid_starts_with_put
         [of "[Logged Info ''Starting content moderation scan'']" e ct b]
  show ?thesis
    by (simp add: RekognitionClient_scan_def hybrid_scan_unfold)
qed

text \<open>
  A refused delete after an otherwise successful scan is taken for a failure of the scan.
\<close>

lemma refused_delete_gives_failed_verdict:
  assumes "s3_putObject e (tempKey_of e ct) b ct = None"
    and "rekognition_detectModerationLabels e (tempKey_of e ct) 70 = Inr ml"
    and "rekognition_detectLabels e (tempKey_of e ct) 20 50 = Inr ol"
    and "s3_deleteObject e 0 (tempKey_of e ct) = Some err"
  shows "snd (RekognitionClient_scanImageForModeration_hybrid e b ct) = Inr (caught_verdict err)"
  using assms
  by (simp add: hybrid_scan_unfold scan_staged_hybrid_result scan_try_hybrid_result
        delete_calls_simps)

section \<open>Claims about the scan client\<close>

text \<open>
  Claim C2. Whatever the outcome of a scan (pass, content failure or provider error),
  the delete of the staged object is called exactly once. The delete at the end of the
  \<^verbatim>\<open>try\<close> block is not guarded: when it is refused, control passes to the
  \<^verbatim>\<open>catch\<close> clause, which calls the delete again. With a store that refuses the
  first delete, both clients call it twice in a scan in which every other call is
  accepted.
\<close>

theorem refused_delete_is_called_twice:
  "delete_calls (fst (RekognitionClient_scanImageForModeration_hybrid
                        (stub_env_delete_fails [] []) [1, 2, 3] ''image/png'')) = 2
   \<and> delete_calls (fst (RekognitionClient_scanImageForModeration
                          (stub_env_delete_fails [] []) [1, 2, 3] ''image/png'')) = 2"
  by (simp add: hybrid_scan_delete_calls plain_scan_delete_calls stub_env_delete_fails_def
        stub_env_def)

text \<open>
  Claim C3. When the scan and the verdict succeed with \<open>passed = True\<close>, a failure of
  the delete that follows does not change the outcome. In both clients the verdict is
  built after the delete, inside the same \<^verbatim>\<open>try\<close> block: on an image without any
  label, which passes when the delete is accepted, a refused delete makes the scan
  return \<open>passed = False\<close> with the message of the delete's error.
\<close>

theorem refused_delete_flips_verdict:
  "snd (RekognitionClient_scanImageForModeration_hybrid (stub_env [] []) [1, 2, 3] ''image/png'')
     = Inr \<lparr>passed = True, moderationLabels = [], confidence = 0, error = None\<rparr>
   \<and> snd (RekognitionClient_scanImageForModeration_hybrid
            (stub_env_delete_fails [] []) [1, 2, 3] ''image/png'')
     = Inr \<lparr>passed = False, moderationLabels = [], confidence = 0,
            error = Some ''AccessDenied''\<rparr>
   \<and> snd (RekognitionClient_scanImageForModeration (stub_env [] []) [1, 2, 3] ''image/png'')
     = Inr \<lparr>passed = True, moderationLabels = [], confidence = 0, error = None\<rparr>
   \<and> snd (RekognitionClient_scanImageForModeration
            (stub_env_delete_fails [] []) [1, 2, 3] ''image/png'')
     = Inr \<lparr>passed = False, moderationLabels = [], confidence = 0,
            error = Some ''AccessDenied''\<rparr>"
  by (simp add: hybrid_scan_unfold plain_scan_unfold scan_staged_hybrid_result
        scan_staged_result scan_try_hybrid_result scan_try_result delete_calls_simps
        caught_verdict_def labels_or_empty_def hasInappropriateContent_def hasExplicitContent_def
        label_names_def max_confidence_def stub_env_delete_fails_def stub_env_def)

text \<open>
  Claim C4, as stated: only the nine labels of the disallowed set, at confidence 70 or
  more, make a verdict fail, and a label for weapons, combat or violence never does.
  The client of \<^verbatim>\<open>src/clients/rekognition.ts\<close> has \<open>Violence\<close> in its list: a
  \<open>Violence\<close> label at confidence 90 alone makes its verdict fail.
\<close>

theorem violence_label_rejected:
  "snd (RekognitionClient_scanImageForModeration
          (stub_env [\<lparr>Name = Some ''Violence'', Confidence = Some 90\<rparr>] [])
          [1, 2, 3] ''image/png'')
     = Inr \<lparr>passed = False, moderationLabels = [''Violence''], confidence = 90, error = None\<rparr>"
  by (simp add: plain_scan_unfold scan_staged_result scan_try_result delete_calls_simps
        labels_or_empty_def hasExplicitContent_def explicitContentLabels_def label_names_def
        label_name_def label_confidence_def max_confidence_def stub_env_def)

text \<open>
  Claim C4, amended. In a scan that completes (no error in the verdict), whatever the
  content type it is called with, the verdict of the hybrid client fails exactly when
  one of the moderation labels has a name among the nine of the disallowed set and a
  confidence of 70 or more; the verdict of the client of
  \<^verbatim>\<open>src/clients/rekognition.ts\<close> fails exactly when one has a name among these
  nine or \<open>Violence\<close> and a confidence of 70 or more. The weapon and combat labels of
  the object detection have no part in either verdict.
\<close>

theorem rejecting_labels:
  "(snd (RekognitionClient_scanImageForModeration_hybrid e b ct) = Inr r \<and> error r = None \<longrightarrow>
      (\<exists>ml. rekognition_detectModerationLabels e (tempKey_of e ct) 70 = Inr ml
         \<and> (passed r \<longleftrightarrow>
              \<not> (\<exists>l \<in> set (labels_or_empty ml).
                    label_name l \<in> {''Explicit Nudity'', ''Visually Disturbing'', ''Hate Symbols'',
                       ''Gambling'', ''Drugs'', ''Tobacco'', ''Alcohol'', ''Rude Gestures'',
                       ''Adult Content''}
                    \<and> 70 \<le> label_confidence l))))
   \<and> (snd (RekognitionClient_scanImageForModeration e b ct') = Inr r' \<and> error r' = None \<longrightarrow>
      (\<exists>ml. rekognition_detectModerationLabels e (tempKey_of e ct') 50 = Inr ml
         \<and> (passed r' \<longleftrightarrow>
              \<not> (\<exists>l \<in> set (labels_or_empty ml).
                    label_name l \<in> {''Explicit Nudity'', ''Violence'', ''Visually Disturbing'',
                       ''Hate Symbols'', ''Gambling'', ''Drugs'', ''Tobacco'', ''Alcohol'',
                       ''Rude Gestures'', ''Adult Content''}
                    \<and> 70 \<le> label_confidence l))))"
  using hybrid_completed_verdict [of e b ct r] plain_completed_verdict_any_type [of e b ct' r']
  unfolding hasInappropriateContent_iff hasExplicitContent_iff
  by blast

theorem rejecting_labels_witness:
  "snd (RekognitionClient_scanImageForModeration_hybrid
          (stub_env [\<lparr>Name = Some ''Violence'', Confidence = Some 90\<rparr>]
                    [\<lparr>Name = Some ''Gun'', Confidence = Some 99\<rparr>])
          [1, 2, 3] ''image/png'')
     = Inr \<lparr>passed = True, moderationLabels = [''Violence''], confidence = 90, error = None\<rparr>
   \<and> snd (RekognitionClient_scanImageForModeration
          (stub_env [\<lparr>Name = Some ''Explicit Nudity'', Confidence = Some 91\<rparr>] [])
          [1, 2, 3] ''image/jpeg'')
     = Inr \<lparr>passed = False, moderationLabels = [''Explicit Nudity''], confidence = 91,
            error = None\<rparr>
   \<and> (\<exists>ml. rekognition_detectModerationLabels
               (stub_env [\<lparr>Name = Some ''Violence'', Confidence = Some 90\<rparr>]
                         [\<lparr>Name = Some ''Gun'', Confidence = Some 99\<rparr>])
               (tempKey_of (stub_env [\<lparr>Name = Some ''Violence'', Confidence = Some 90\<rparr>]
                                     [\<lparr>Name = Some ''Gun'', Confidence = Some 99\<rparr>])
                           ''image/png'') 70 = Inr ml
         \<and> \<not> (\<exists>l \<in> set (labels_or_empty ml).
                    label_name l \<in> {''Explicit Nudity'', ''Visually Disturbing'', ''Hate Symbols'',
                       ''Gambling'', ''Drugs'', ''Tobacco'', ''Alcohol'', ''Rude Gestures'',
                       ''Adult Content''}
                    \<and> 70 \<le> label_confidence l))
   \<and> (\<exists>ml. rekognition_detectModerationLabels
               (stub_env [\<lparr>Name = Some ''Explicit Nudity'', Confidence = Some 91\<rparr>] [])
               (tempKey_of (stub_env [\<lparr>Name = Some ''Explicit Nudity'', Confidence = Some 91\<rparr>] [])
                           ''image/jpeg'') 50 = Inr ml
         \<and> (\<exists>l \<in> set (labels_or_empty ml).
                    label_name l \<in> {''Explicit Nudity'', ''Violence'', ''Visually Disturbing'',
                       ''Hate Symbols'', ''Gambling'', ''Drugs'', ''Tobacco'', ''Alcohol'',
                       ''Rude Gestures'', ''Adult Content''}
                    \<and> 70 \<le> label_confidence l))"
proof -
  let ?eh = "stub_env [\<lparr>Name = Some ''Violence'', Confidence = Some 90\<rparr>]
                      [\<lparr>Name = Some ''Gun'', Confidence = Some 99\<rparr>]"
  let ?ep = "stub_env [\<lparr>Name = Some ''Explicit Nudity'', Confidence = Some 91\<rparr>] []"
  let ?rh = "\<lparr>passed = True, moderationLabels = [''Violence''], confidence = 90, error = None\<rparr>"
  let ?rp = "\<lparr>passed = False, moderationLabels = [''Explicit Nudity''], confidence = 91,
              error = None\<rparr>"
  have h: "snd (RekognitionClient_scanImageForModeration_hybrid ?eh [1, 2, 3] ''image/png'')
           = Inr ?rh"
    by (simp add: hybrid_scan_unfold scan_staged_hybrid_result scan_try_hybrid_result
          delete_calls_simps labels_or_empty_def hasInappropriateContent_def
          blockedContentLabels_def label_names_def label_name_def label_confidence_def
          max_confidence_def stub_env_def)
  have p: "snd (RekognitionClient_scanImageForModeration ?ep [1, 2, 3] ''image/jpeg'')
           = Inr ?rp"
    by (simp add: plain_scan_unfold scan_staged_result scan_try_result
          delete_calls_simps labels_or_empty_def hasExplicitContent_def
          explicitContentLabels_def label_names_def label_name_def label_confidence_def
          max_confidence_def stub_env_def)
  from rejecting_labels [where e = ?eh and b = "[1, 2, 3]" and ct = "''image/png''" and r = ?rh] h
  have c1: "\<exists>ml. rekognition_detectModerationLabels ?eh (tempKey_of ?eh ''image/png'') 70 = Inr ml
         \<and> \<not> (\<exists>l \<in> set (labels_or_empty ml).
                    label_name l \<in> {''Explicit Nudity'', ''Visually Disturbing'', ''Hate Symbols'',
                       ''Gambling'', ''Drugs'', ''Tobacco'', ''Alcohol'', ''Rude Gestures'',
                       ''Adult Content''}
                    \<and> 70 \<le> label_confidence l)"
    by simp
  from rejecting_labels [where e = ?ep and b = "[1, 2, 3]" and ct' = "''image/jpeg''" and r' = ?rp] p
  have c2: "\<exists>ml. rekognition_detectModerationLabels ?ep (tempKey_of ?ep ''image/jpeg'') 50 = Inr ml
         \<and> (\<exists>l \<in> set (labels_or_empty ml).
                    label_name l \<in> {''Explicit Nudity'', ''Violence'', ''Visually Disturbing'',
                       ''Hate Symbols'', ''Gambling'', ''Drugs'', ''Tobacco'', ''Alcohol'',
                       ''Rude Gestures'', ''Adult Content''}
                    \<and> 70 \<le> label_confidence l)"
    by simp
  from h p c1 c2 show ?thesis by blast
qed


section \<open>Properties of the handler\<close>

lemma handler_rejects_early:
  assumes "\<not> truthy_str (imageData req) \<or> \<not> truthy_str (filename req)
           \<or> \<not> isSupportedFormat (declaredContentType req)
           \<or> length (base64_decode e (str_value (imageData req))) > 2097152"
  shows "fst (handler v e (Some req)) = []"
  using assms by (auto simp: handler_def Let_def)

text \<open>A request that passes the three cheap checks is scanned, and uploaded only on a pass.\<close>

lemma handler_validated:
  assumes "truthy_str (imageData req)" and "truthy_str (filename req)"
    and "isSupportedFormat (declaredContentType req)"
    and "length (base64_decode e (str_value (imageData req))) \<le> 2097152"
  shows "handler v e (Some req) =
     (case scanImageForModeration v e (base64_decode e (str_value (imageData req)))
             (declaredContentType req) of
        (evs, Inl err) \<Rightarrow> (evs, internal_error_response)
      | (evs, Inr moderationResult) \<Rightarrow>
          if \<not> passed moderationResult
          then (evs, moderation_failed_response moderationResult)
          else
            (case uploadImageToBackblaze e (base64_decode e (str_value (imageData req)))
                    (replace_extension (str_value (filename req))) (declaredContentType req) of
               (evs', Inl err) \<Rightarrow> (evs @ evs', internal_error_response)
             | (evs', Inr backblazeUrl) \<Rightarrow>
                 (evs @ evs',
                  \<lparr>statusCode = 200,
                   body = \<lparr>success = True,
                           message_text = ''Image successfully processed and uploaded'',
                           error_kind = None,
                           data = Some (SuccessData (replace_extension (str_value (filename req)))
                             backblazeUrl
                             (extractFormatFromContentType (declaredContentType req)) ''webp''
                             True (confidence moderationResult))\<rparr>\<rparr>)))"
  using assms by (simp add: handler_def Let_def split: prod.split sum.split)


lemma scanImageForModeration_no_upload:
  "\<not> list_ex is_backblaze_put (fst (scanImageForModeration v e b ct))"
proof (cases "convertToRekognitionCompatible e b ct")
  case (Inl err)
  then show ?thesis by (simp add: scanImageForModeration_def)
next
  case (Inr img)
  obtain evs res where scan:
    "RekognitionClient_scan v e (buffer img) (getMimeType (format img)) = (evs, res)"
    by (cases "RekognitionClient_scan v e (buffer img) (getMimeType (format img))")
  with scan_no_upload [of v e "buffer img" "getMimeType (format img)"]
  have "\<not> list_ex is_backblaze_put evs" by simp
  with Inr scan show ?thesis
    by (cases res) (simp_all add: scanImageForModeration_def)
qed


lemma not_list_ex_backblaze:
  "\<not> list_ex is_backblaze_put evs \<Longrightarrow> CallBackblazePut k bytes mime \<notin> set evs"
  by (auto simp: list_ex_iff)

lemma convertToWebPIfNeeded_format:
  "convertToWebPIfNeeded e b ct = Inr img \<Longrightarrow> format img = ''webp''"
  by (auto simp: convertToWebPIfNeeded_def Let_def split: if_splits sum.splits)

lemma uploadImageToBackblaze_events:
  assumes "ev \<in> set (fst (uploadImageToBackblaze e b f ct))"
  shows "\<exists>bytes. ev = CallBackblazePut f bytes ''image/webp''"
proof (cases "convertToWebPIfNeeded e b ct")
  case (Inl err)
  with assms show ?thesis by (simp add: uploadImageToBackblaze_def)
next
  case (Inr img)
  with assms convertToWebPIfNeeded_format [OF Inr] show ?thesis
    by (auto simp: uploadImageToBackblaze_def Let_def getMimeType_def split: option.splits)
qed

lemma replace_extension_with_extension:
  assumes "extension_chars ext"
  shows "replace_extension (stem @ ''.'' @ ext) = stem @ ''.webp''"
  using assms by (induction stem) (auto simp: extension_chars_def)

lemma replace_extension_without_extension:
  assumes "\<not> (\<exists>stem ext. f = stem @ ''.'' @ ext \<and> extension_chars ext)"
  shows "replace_extension f = f"
  using assms
proof (induction f)
  case Nil
  then show ?case by simp
next
  case (Cons c cs)
  have "\<not> (c = CHR ''.'' \<and> extension_chars cs)"
  proof
    assume "c = CHR ''.'' \<and> extension_chars cs"
    then have "c # cs = [] @ ''.'' @ cs \<and> extension_chars cs" by simp
    with Cons.prems show False by blast
  qed
  moreover have "\<not> (\<exists>stem ext. cs = stem @ ''.'' @ ext \<and> extension_chars ext)"
  proof
    assume "\<exists>stem ext. cs = stem @ ''.'' @ ext \<and> extension_chars ext"
    then obtain stem ext where "cs = stem @ ''.'' @ ext" "extension_chars ext" by blast
    then have "c # cs = (c # stem) @ ''.'' @ ext \<and> extension_chars ext" by simp
    with Cons.prems show False by blast
  qed
  ultimately show ?case using Cons.IH by auto
qed

lemma extension_chars_iff:
  "extension_chars ext \<longleftrightarrow> ext \<noteq> [] \<and> CHR ''/'' \<notin> set ext \<and> CHR ''.'' \<notin> set ext"
  by (auto simp: extension_chars_def list_all_iff)

lemma handler_upload_key:
  assumes "CallBackblazePut k bytes mime \<in> set (fst (handler v e (Some req)))"
  shows "k = replace_extension (str_value (filename req)) \<and> mime = ''image/webp''"
proof (cases "truthy_str (imageData req) \<and> truthy_str (filename req)
              \<and> isSupportedFormat (declaredContentType req)
              \<and> length (base64_decode e (str_value (imageData req))) \<le> 2097152")
  case False
  then have "fst (handler v e (Some req)) = []"
    using handler_rejects_early [of req e v] by auto
  with assms show ?thesis by simp
next
  case True
  let ?buf = "base64_decode e (str_value (imageData req))"
  let ?ct = "declaredContentType req"
  let ?f = "replace_extension (str_value (filename req))"
  obtain evs res where scan: "scanImageForModeration v e ?buf ?ct = (evs, res)"
    by (cases "scanImageForModeration v e ?buf ?ct")
  have no: "CallBackblazePut k bytes mime \<notin> set evs"
    using scanImageForModeration_no_upload [of v e ?buf ?ct] scan
    by (simp add: not_list_ex_backblaze)
  obtain evs' res' where up: "uploadImageToBackblaze e ?buf ?f ?ct = (evs', res')"
    by (cases "uploadImageToBackblaze e ?buf ?f ?ct")
  have "fst (handler v e (Some req)) = evs \<or> fst (handler v e (Some req)) = evs @ evs'"
    using True scan up
    by (auto simp: handler_validated split: sum.splits)
  with assms no have "CallBackblazePut k bytes mime \<in> set evs'" by auto
  with uploadImageToBackblaze_events [of "CallBackblazePut k bytes mime" e ?buf ?f ?ct] up
  show ?thesis by auto
qed

text \<open>The permanent store is only called after the scan has returned a passing verdict.\<close>

lemma upload_only_after_pass:
  assumes "list_ex is_backblaze_put (fst (handler v e (Some req)))"
  shows "\<exists>verdict. snd (scanImageForModeration v e (base64_decode e (str_value (imageData req)))
                         (declaredContentType req)) = Inr verdict \<and> passed verdict"
proof (cases "truthy_str (imageData req) \<and> truthy_str (filename req)
              \<and> isSupportedFormat (declaredContentType req)
              \<and> length (base64_decode e (str_value (imageData req))) \<le> 2097152")
  case False
  then have "fst (handler v e (Some req)) = []"
    using handler_rejects_early [of req e v] by auto
  with assms show ?thesis by simp
next
  case True
  let ?buf = "base64_decode e (str_value (imageData req))"
  let ?ct = "declaredContentType req"
  obtain evs res where scan: "scanImageForModeration v e ?buf ?ct = (evs, res)"
    by (cases "scanImageForModeration v e ?buf ?ct")
  have no: "\<not> list_ex is_backblaze_put evs"
    using scanImageForModeration_no_upload [of v e ?buf ?ct] scan by simp
  show ?thesis
  proof (cases res)
    case (Inl err)
    with True scan have "fst (handler v e (Some req)) = evs"
      by (simp add: handler_validated)
    with assms no show ?thesis by simp
  next
    case (Inr verdict)
    show ?thesis
    proof (cases "passed verdict")
      case True
      with scan Inr show ?thesis by simp
    next
      case False
      with \<open>truthy_str (imageData req) \<and> truthy_str (filename req)
              \<and> isSupportedFormat (declaredContentType req)
              \<and> length (base64_decode e (str_value (imageData req))) \<le> 2097152\<close> scan Inr
      have "fst (handler v e (Some req)) = evs"
        by (simp add: handler_validated)
      with assms no show ?thesis by simp
    qed
  qed
qed

lemma scanImageForModeration_result:
  assumes "convertToRekognitionCompatible e b ct = Inr img"
    and "snd (RekognitionClient_scan v e (buffer img) (getMimeType (format img))) = Inr m"
  shows "snd (scanImageForModeration v e b ct) =
           Inr \<lparr>passed = passed m, moderationLabels = moderationLabels m,
                confidence = confidence m, error = None\<rparr>"
proof -
  obtain evs where "RekognitionClient_scan v e (buffer img) (getMimeType (format img))
                    = (evs, Inr m)"
    using assms(2)
    by (cases "RekognitionClient_scan v e (buffer img) (getMimeType (format img))") simp
  with assms(1) show ?thesis by (simp add: scanImageForModeration_def)
qed

lemma handler_success:
  assumes "truthy_str (imageData req)" and "truthy_str (filename req)"
    and "isSupportedFormat (declaredContentType req)"
    and "length (base64_decode e (str_value (imageData req))) \<le> 2097152"
    and "snd (scanImageForModeration v e (base64_decode e (str_value (imageData req)))
                (declaredContentType req)) = Inr m"
    and "passed m"
    and "snd (uploadImageToBackblaze e (base64_decode e (str_value (imageData req)))
                (replace_extension (str_value (filename req))) (declaredContentType req))
         = Inr url"
  shows "snd (handler v e (Some req)) =
     \<lparr>statusCode = 200,
      body = \<lparr>success = True, message_text = ''Image successfully processed and uploaded'',
              error_kind = None,
              data = Some (SuccessData (replace_extension (str_value (filename req))) url
                (extractFormatFromContentType (declaredContentType req)) ''webp''
                True (confidence m))\<rparr>\<rparr>"
proof -
  let ?buf = "base64_decode e (str_value (imageData req))"
  let ?ct = "declaredContentType req"
  let ?f = "replace_extension (str_value (filename req))"
  obtain evs where scan: "scanImageForModeration v e ?buf ?ct = (evs, Inr m)"
    using assms(5) by (cases "scanImageForModeration v e ?buf ?ct") simp
  obtain evs' where up: "uploadImageToBackblaze e ?buf ?f ?ct = (evs', Inr url)"
    using assms(7) by (cases "uploadImageToBackblaze e ?buf ?f ?ct") simp
  show ?thesis
    using assms(1-4,6) scan up by (simp add: handler_validated)
qed

lemma handler_upload_events:
  assumes "truthy_str (imageData req)" and "truthy_str (filename req)"
    and "isSupportedFormat (declaredContentType req)"
    and "length (base64_decode e (str_value (imageData req))) \<le> 2097152"
    and "snd (scanImageForModeration v e (base64_decode e (str_value (imageData req)))
                (declaredContentType req)) = Inr m"
    and "passed m"
  shows "fst (handler v e (Some req)) =
     fst (scanImageForModeration v e (base64_decode e (str_value (imageData req)))
            (declaredContentType req))
     @ fst (uploadImageToBackblaze e (base64_decode e (str_value (imageData req)))
              (replace_extension (str_value (filename req))) (declaredContentType req))"
proof -
  let ?buf = "base64_decode e (str_value (imageData req))"
  let ?ct = "declaredContentType req"
  let ?f = "replace_extension (str_value (filename req))"
  obtain evs where scan: "scanImageForModeration v e ?buf ?ct = (evs, Inr m)"
    using assms(5) by (cases "scanImageForModeration v e ?buf ?ct") simp
  obtain evs' res where up: "uploadImageToBackblaze e ?buf ?f ?ct = (evs', res)"
    by (cases "uploadImageToBackblaze e ?buf ?f ?ct")
  show ?thesis
    using assms(1-4,6) scan up by (simp add: handler_validated split: sum.split)
qed

section \<open>Claims about the handler\<close>

text \<open>
  Claim C1. Whenever the moderation scan of a request returns a verdict with
  \<open>passed = False\<close>, the upload to the permanent store is not called for that request,
  and the handler answers with status 400 and the error \<open>MODERATION_FAILED\<close>, carrying
  the labels and the confidence of the verdict. The scan is made for a request that
  has both required fields, a supported content type and at most 2 MiB of image data.
\<close>

theorem failed_moderation_prevents_upload:
  assumes "truthy_str (imageData req)" and "truthy_str (filename req)"
    and "isSupportedFormat (declaredContentType req)"
    and "length (base64_decode e (str_value (imageData req))) \<le> 2097152"
    and "snd (scanImageForModeration v e (base64_decode e (str_value (imageData req)))
                (declaredContentType req)) = Inr verdict"
    and "\<not> passed verdict"
  shows "\<not> list_ex is_backblaze_put (fst (handler v e (Some req)))
     \<and> snd (handler v e (Some req)) =
         \<lparr>statusCode = 400,
          body = \<lparr>success = False, message_text = ''Image failed moderation checks'',
                  error_kind = Some ''MODERATION_FAILED'',
                  data = Some (ModerationFailedData (moderationLabels verdict)
                                 (confidence verdict))\<rparr>\<rparr>"
proof -
  let ?buf = "base64_decode e (str_value (imageData req))"
  let ?ct = "declaredContentType req"
  obtain evs where scan: "scanImageForModeration v e ?buf ?ct = (evs, Inr verdict)"
    using assms(5) by (cases "scanImageForModeration v e ?buf ?ct") simp
  have "handler v e (Some req) = (evs, moderation_failed_response verdict)"
    using assms(1-4,6) scan by (simp add: handler_validated)
  moreover have "\<not> list_ex is_backblaze_put evs"
    using scanImageForModeration_no_upload [of v e ?buf ?ct] scan by simp
  ultimately show ?thesis by (simp add: moderation_failed_response_def)
qed


lemmas stub_request_evals = stub_request_def declaredContentType_def truthy_str_def str_value_def

lemmas stub_scan_evals = scanImageForModeration_def convertToRekognitionCompatible_def
  REKOGNITION_COMPATIBLE_FORMATS_def getMimeType_def RekognitionClient_scan_def
  hybrid_scan_unfold scan_staged_hybrid_result scan_try_hybrid_result delete_calls_simps
  labels_or_empty_def hasInappropriateContent_def blockedContentLabels_def label_names_def
  label_name_def label_confidence_def max_confidence_def convertToPNG_def
  instantiateSharpImage_def instantiate_try_def truthy_num_def num_value_def
  MAX_IMAGE_DIMENSION_def

theorem failed_moderation_prevents_upload_witness:
  "snd (scanImageForModeration Hybrid
          (stub_env [\<lparr>Name = Some ''Explicit Nudity'', Confidence = Some 91\<rparr>] [])
          [7, 7, 7, 7] ''image/png'')
     = Inr \<lparr>passed = False, moderationLabels = [''Explicit Nudity''], confidence = 91,
            error = None\<rparr>
   \<and> \<not> list_ex is_backblaze_put
         (fst (handler Hybrid
                 (stub_env [\<lparr>Name = Some ''Explicit Nudity'', Confidence = Some 91\<rparr>] [])
                 (Some (stub_request ''photo.png'' (Some ''image/png'')))))
   \<and> snd (handler Hybrid
            (stub_env [\<lparr>Name = Some ''Explicit Nudity'', Confidence = Some 91\<rparr>] [])
            (Some (stub_request ''photo.png'' (Some ''image/png'')))) =
         \<lparr>statusCode = 400,
          body = \<lparr>success = False, message_text = ''Image failed moderation checks'',
                  error_kind = Some ''MODERATION_FAILED'',
                  data = Some (ModerationFailedData [''Explicit Nudity''] 91)\<rparr>\<rparr>"
proof -
  let ?e = "stub_env [\<lparr>Name = Some ''Explicit Nudity'', Confidence = Some 91\<rparr>] []"
  let ?req = "stub_request ''photo.png'' (Some ''image/png'')"
  let ?verdict = "\<lparr>passed = False, moderationLabels = [''Explicit Nudity''], confidence = 91,
                   error = None\<rparr>"
  have buf: "base64_decode ?e (str_value (imageData ?req)) = [7, 7, 7, 7]"
    by (simp add: stub_env_def stub_request_evals)
  have ct: "declaredContentType ?req = ''image/png''"
    by (simp add: stub_request_evals)
  have h1: "truthy_str (imageData ?req)" and h2: "truthy_str (filename ?req)"
    by (simp_all add: stub_request_evals)
  have h3: "isSupportedFormat (declaredContentType ?req)"
    by (simp add: ct isSupportedFormat_def SUPPORTED_FORMATS_def format_evals)
  have h4: "length (base64_decode ?e (str_value (imageData ?req))) \<le> 2097152"
    by (simp add: buf)
  have scan: "snd (scanImageForModeration Hybrid ?e [7, 7, 7, 7] ''image/png'') = Inr ?verdict"
    by (simp add: stub_scan_evals format_evals stub_env_def)
  then have h5: "snd (scanImageForModeration Hybrid ?e
                   (base64_decode ?e (str_value (imageData ?req)))
                   (declaredContentType ?req)) = Inr ?verdict"
    by (simp only: buf ct)
  have h6: "\<not> passed ?verdict" by simp
  from failed_moderation_prevents_upload [OF h1 h2 h3 h4 h5 h6] scan
  show ?thesis by simp
qed


lemma webp_is_supported:
  "extractFormatFromContentType ct = ''webp'' \<Longrightarrow> isSupportedFormat ct"
  by (simp add: isSupportedFormat_def SUPPORTED_FORMATS_def)

lemma upload_of_webp:
  assumes "extractFormatFromContentType ct = ''webp''"
  shows "fst (uploadImageToBackblaze e b f ct) = [CallBackblazePut f b ''image/webp'']"
  using assms
  by (simp add: uploadImageToBackblaze_def convertToWebPIfNeeded_passthrough getMimeType_def
        Let_def split: option.split)

text \<open>Runs of the handler against the collaborator doubles.\<close>

lemma stub_request_fields:
  "base64_decode (stub_env ls ols) ''AAAA'' = [7, 7, 7, 7]"
  "declaredContentType (stub_request f (Some ct)) = (if ct = [] then ''image/jpeg'' else ct)"
  "declaredContentType (stub_request f None) = ''image/jpeg''"
  "truthy_str (imageData (stub_request f c))"
  "truthy_str (filename (stub_request f c)) = (f \<noteq> [])"
  "str_value (filename (stub_request f c)) = f"
  "str_value (imageData (stub_request f c)) = ''AAAA''"
  by (simp_all add: stub_env_def stub_request_evals)

lemma stub_client_passes:
  "snd (RekognitionClient_scan Hybrid (stub_env [] []) b ct)
     = Inr \<lparr>passed = True, moderationLabels = [], confidence = 0, error = None\<rparr>"
  by (simp add: RekognitionClient_scan_def hybrid_scan_unfold scan_staged_hybrid_result
        scan_try_hybrid_result delete_calls_simps labels_or_empty_def
        hasInappropriateContent_def label_names_def max_confidence_def stub_env_def)

lemma stub_convert_webp:
  "convertToRekognitionCompatible (stub_env [] []) b ''image/webp''
     = Inr \<lparr>buffer = png_bytes, format = ''png'', converted = True\<rparr>"
  by (simp add: convertToRekognitionCompatible_def format_evals REKOGNITION_COMPATIBLE_FORMATS_def
        convertToPNG_def instantiateSharpImage_def instantiate_try_def truthy_num_def
        num_value_def MAX_IMAGE_DIMENSION_def stub_env_def)

lemma stub_convert_jpeg:
  "convertToRekognitionCompatible (stub_env [] []) b ''image/jpeg''
     = Inr \<lparr>buffer = b, format = ''jpeg'', converted = False\<rparr>"
  by (simp add: convertToRekognitionCompatible_def format_evals REKOGNITION_COMPATIBLE_FORMATS_def)

lemma stub_scan_passes:
  assumes "ct = ''image/webp'' \<or> ct = ''image/jpeg''"
  shows "snd (scanImageForModeration Hybrid (stub_env [] []) b ct)
     = Inr \<lparr>passed = True, moderationLabels = [], confidence = 0, error = None\<rparr>"
  using assms
    scanImageForModeration_result [OF stub_convert_webp stub_client_passes, of b]
    scanImageForModeration_result [OF stub_convert_jpeg stub_client_passes, of b]
  by auto

lemma stub_upload_jpeg:
  "uploadImageToBackblaze (stub_env [] []) b f ''image/jpeg''
     = ([CallBackblazePut f webp_bytes ''image/webp''], Inr (''https://cdn.example/'' @ f))"
  by (simp add: uploadImageToBackblaze_def convertToWebPIfNeeded_def convertToWebP_def
        format_evals instantiateSharpImage_def instantiate_try_def truthy_num_def
        num_value_def MAX_IMAGE_DIMENSION_def getMimeType_def stub_env_def)

lemma stub_upload_webp:
  "uploadImageToBackblaze (stub_env [] []) b f ''image/webp''
     = ([CallBackblazePut f b ''image/webp''], Inr (''https://cdn.example/'' @ f))"
  by (simp add: uploadImageToBackblaze_def convertToWebPIfNeeded_def
        format_evals getMimeType_def stub_env_def)

lemma stub_supported:
  "isSupportedFormat ''image/webp''" "isSupportedFormat ''image/jpeg''"
  by (simp_all add: isSupportedFormat_def SUPPORTED_FORMATS_def format_evals)

text \<open>
  Claim C6, as stated: for a WebP input that passes moderation no format conversion
  occurs at all, both boundary conversions reporting \<open>converted = False\<close>. WebP is not a
  scan-compatible format: in a run in which a WebP request passes moderation and is
  answered with status 200, the scan-compatibility conversion of its bytes returns a
  PNG buffer with \<open>converted = True\<close>.
\<close>

theorem webp_is_converted_for_the_scan:
  "statusCode (snd (handler Hybrid (stub_env [] [])
                     (Some (stub_request ''photo.webp'' (Some ''image/webp''))))) = 200
   \<and> convertToRekognitionCompatible (stub_env [] []) [7, 7, 7, 7] ''image/webp''
       = Inr \<lparr>buffer = png_bytes, format = ''png'', converted = True\<rparr>"
proof -
  have "statusCode (snd (handler Hybrid (stub_env [] [])
                           (Some (stub_request ''photo.webp'' (Some ''image/webp''))))) = 200"
    by (subst handler_success
          [where m = "\<lparr>passed = True, moderationLabels = [], confidence = 0, error = None\<rparr>"
             and url = "''https://cdn.example/'' @ replace_extension ''photo.webp''"])
       (simp_all add: stub_request_fields stub_supported stub_scan_passes stub_upload_webp)
  with stub_convert_webp show ?thesis by simp
qed

text \<open>
  Claim C6, amended. For a WebP request that passes moderation, the scan-compatibility
  conversion re-encodes the image to PNG for the scan (\<open>converted = True\<close>, format
  \<open>png\<close>), the storage-format conversion is a pass-through (\<open>converted = False\<close>, the
  same buffer), and the one call on the permanent store carries the original input
  bytes unchanged, with content type \<open>image/webp\<close>.
\<close>

theorem webp_bytes_reach_the_store_unchanged:
  assumes "truthy_str (imageData req)" and "truthy_str (filename req)"
    and "extractFormatFromContentType (declaredContentType req) = ''webp''"
    and "length (base64_decode e (str_value (imageData req))) \<le> 2097152"
    and "snd (scanImageForModeration v e (base64_decode e (str_value (imageData req)))
                (declaredContentType req)) = Inr verdict"
    and "passed verdict"
  shows "(\<exists>r. convertToRekognitionCompatible e (base64_decode e (str_value (imageData req)))
                (declaredContentType req) = Inr r
             \<and> converted r \<and> format r = ''png'')
     \<and> convertToWebPIfNeeded e (base64_decode e (str_value (imageData req)))
           (declaredContentType req)
         = Inr \<lparr>buffer = base64_decode e (str_value (imageData req)), format = ''webp'',
                converted = False\<rparr>
     \<and> filter is_backblaze_put (fst (handler v e (Some req)))
         = [CallBackblazePut (replace_extension (str_value (filename req)))
              (base64_decode e (str_value (imageData req))) ''image/webp'']"
proof -
  let ?buf = "base64_decode e (str_value (imageData req))"
  let ?ct = "declaredContentType req"
  let ?f = "replace_extension (str_value (filename req))"
  obtain evs where scan: "scanImageForModeration v e ?buf ?ct = (evs, Inr verdict)"
    using assms(5) by (cases "scanImageForModeration v e ?buf ?ct") simp
  have "\<exists>r. convertToRekognitionCompatible e ?buf ?ct = Inr r"
  proof (cases "convertToRekognitionCompatible e ?buf ?ct")
    case (Inl err)
    with scan show ?thesis by (simp add: scanImageForModeration_def)
  next
    case (Inr r)
    then show ?thesis by blast
  qed
  then obtain r where r: "convertToRekognitionCompatible e ?buf ?ct = Inr r" by blast
  with assms(3) convertToRekognitionCompatible_converts [of ?ct e ?buf r]
  have first: "\<exists>r. convertToRekognitionCompatible e ?buf ?ct = Inr r
                 \<and> converted r \<and> format r = ''png''"
    by simp
  have second: "convertToWebPIfNeeded e ?buf ?ct
                = Inr \<lparr>buffer = ?buf, format = ''webp'', converted = False\<rparr>"
    using assms(3) by (rule convertToWebPIfNeeded_passthrough)
  have no: "filter is_backblaze_put evs = []"
    using scanImageForModeration_no_upload [of v e ?buf ?ct] scan
    by (simp add: list_ex_iff filter_empty_conv)
  obtain res where up:
    "uploadImageToBackblaze e ?buf ?f ?ct = ([CallBackblazePut ?f ?buf ''image/webp''], res)"
    using upload_of_webp [OF assms(3), of e ?buf ?f]
    by (cases "uploadImageToBackblaze e ?buf ?f ?ct") simp
  have "fst (handler v e (Some req)) = evs @ [CallBackblazePut ?f ?buf ''image/webp'']"
    using assms(1,2,4,6) webp_is_supported [OF assms(3)] scan up
    by (simp add: handler_validated split: sum.split)
  with no have third: "filter is_backblaze_put (fst (handler v e (Some req)))
                       = [CallBackblazePut ?f ?buf ''image/webp'']"
    by simp
  from first second third show ?thesis by blast
qed


theorem webp_bytes_reach_the_store_unchanged_witness:
  "(\<exists>r. convertToRekognitionCompatible (stub_env [] []) [7, 7, 7, 7] ''image/webp'' = Inr r
        \<and> converted r \<and> format r = ''png'')
   \<and> convertToWebPIfNeeded (stub_env [] []) [7, 7, 7, 7] ''image/webp''
       = Inr \<lparr>buffer = [7, 7, 7, 7], format = ''webp'', converted = False\<rparr>
   \<and> filter is_backblaze_put
        (fst (handler Hybrid (stub_env [] [])
                (Some (stub_request ''photo.webp'' (Some ''image/webp'')))))
       = [CallBackblazePut ''photo.webp'' [7, 7, 7, 7] ''image/webp'']"
proof -
  let ?req = "stub_request ''photo.webp'' (Some ''image/webp'')"
  let ?pass = "\<lparr>passed = True, moderationLabels = [], confidence = 0, error = None\<rparr>"
  have h1: "truthy_str (imageData ?req)" and h2: "truthy_str (filename ?req)"
    by (simp_all add: stub_request_fields)
  have h3: "extractFormatFromContentType (declaredContentType ?req) = ''webp''"
    by (simp add: stub_request_fields format_evals)
  have h4: "length (base64_decode (stub_env [] []) (str_value (imageData ?req))) \<le> 2097152"
    by (simp add: stub_request_fields)
  have h5: "snd (scanImageForModeration Hybrid (stub_env [] [])
                   (base64_decode (stub_env [] []) (str_value (imageData ?req)))
                   (declaredContentType ?req)) = Inr ?pass"
    by (simp add: stub_request_fields stub_scan_passes)
  have h6: "passed ?pass" by simp
  from webp_bytes_reach_the_store_unchanged [OF h1 h2 h3 h4 h5 h6]
  show ?thesis by (simp add: stub_request_fields extension_chars_def)
qed


lemma stub_jpeg_run_events:
  assumes "f \<noteq> []"
  shows "CallBackblazePut (replace_extension f) webp_bytes ''image/webp''
           \<in> set (fst (handler Hybrid (stub_env [] []) (Some (stub_request f (Some ''image/jpeg'')))))"
  by (subst handler_upload_events
        [where m = "\<lparr>passed = True, moderationLabels = [], confidence = 0, error = None\<rparr>"])
     (simp_all add: assms stub_request_fields stub_supported stub_scan_passes stub_upload_jpeg)

text \<open>
  Claim C9, as stated: the filename under which the object is published always ends in
  \<open>.webp\<close>, whatever the filename of the request. The handler rewrites an extension
  that is there and adds none: a request with the filename \<open>photo\<close> is published under
  the key \<open>photo\<close>.
\<close>

theorem filename_without_extension_kept:
  "CallBackblazePut ''photo'' webp_bytes ''image/webp''
     \<in> set (fst (handler Hybrid (stub_env [] [])
                    (Some (stub_request ''photo'' (Some ''image/jpeg'')))))
   \<and> \<not> suffix ''.webp'' ''photo''"
  using stub_jpeg_run_events [of "''photo''"]
  by (simp add: extension_chars_def suffix_to_prefix)

text \<open>
  Claim C9, amended. Every call on the permanent store uses as its key the filename
  of the request with its extension rewritten: when the filename ends in a dot
  followed by one or more characters, none of them a slash or a dot, that ending is
  replaced by \<open>.webp\<close>; a filename without such an ending is used as it is.
\<close>

theorem stored_filename_extension:
  "(CallBackblazePut k bytes mime \<in> set (fst (handler v e (Some req)))
      \<longrightarrow> k = replace_extension (str_value (filename req)))
   \<and> (ext \<noteq> [] \<and> CHR ''/'' \<notin> set ext \<and> CHR ''.'' \<notin> set ext
      \<longrightarrow> replace_extension (stem @ ''.'' @ ext) = stem @ ''.webp'')
   \<and> (\<not> (\<exists>stem' ext'. f = stem' @ ''.'' @ ext'
              \<and> ext' \<noteq> [] \<and> CHR ''/'' \<notin> set ext' \<and> CHR ''.'' \<notin> set ext')
      \<longrightarrow> replace_extension f = f)"
  using handler_upload_key [of k bytes mime v e req]
    replace_extension_with_extension [of ext stem]
    replace_extension_without_extension [of f]
  unfolding extension_chars_iff by blast

theorem stored_filename_extension_witness:
  "CallBackblazePut ''photo.webp'' webp_bytes ''image/webp''
     \<in> set (fst (handler Hybrid (stub_env [] [])
                    (Some (stub_request ''photo.jpg'' (Some ''image/jpeg'')))))
   \<and> replace_extension ''photo.jpg'' = ''photo.webp''
   \<and> replace_extension ''archive.tar.gz'' = ''archive.tar.webp''
   \<and> replace_extension ''photo'' = ''photo''"
proof -
  let ?req = "stub_request ''photo.jpg'' (Some ''image/jpeg'')"
  let ?k = "replace_extension ''photo.jpg''"
  note inst = stored_filename_extension
         [where k = ?k and bytes = webp_bytes
            and mime = "''image/webp''" and v = Hybrid and e = "stub_env [] []" and req = ?req
            and ext = "''gz''" and stem = "''archive.tar''" and f = "''photo''"]
  have ev: "CallBackblazePut ?k webp_bytes ''image/webp''
              \<in> set (fst (handler Hybrid (stub_env [] []) (Some ?req)))"
    using stub_jpeg_run_events [of "''photo.jpg''"] by simp
  have key: "?k = replace_extension (str_value (filename ?req))"
    using inst [THEN conjunct1] ev by (rule mp)
  have jpg: "?k = ''photo.webp''"
    by (simp add: extension_chars_def)
  have "''gz'' \<noteq> [] \<and> CHR ''/'' \<notin> set ''gz'' \<and> CHR ''.'' \<notin> set ''gz''"
    by simp
  with inst [THEN conjunct2, THEN conjunct1]
  have "replace_extension (''archive.tar'' @ ''.'' @ ''gz'') = ''archive.tar'' @ ''.webp''"
    by (rule mp)
  then have gz: "replace_extension ''archive.tar.gz'' = ''archive.tar.webp''"
    by simp
  have "\<not> (\<exists>stem' ext'. ''photo'' = stem' @ ''.'' @ ext'
              \<and> ext' \<noteq> [] \<and> CHR ''/'' \<notin> set ext' \<and> CHR ''.'' \<notin> set ext')"
  proof
    assume "\<exists>stem' ext'. ''photo'' = stem' @ ''.'' @ ext'
              \<and> ext' \<noteq> [] \<and> CHR ''/'' \<notin> set ext' \<and> CHR ''.'' \<notin> set ext'"
    then obtain stem' ext' where eq: "''photo'' = stem' @ ''.'' @ ext'" by blast
    have "CHR ''.'' \<in> set (stem' @ ''.'' @ ext')" by simp
    then have "CHR ''.'' \<in> set ''photo''" by (simp only: eq [symmetric])
    then show False by simp
  qed
  with inst [THEN conjunct2, THEN conjunct2]
  have plain: "replace_extension ''photo'' = ''photo''"
    by (rule mp)
  from ev jpg gz plain show ?thesis by simp
qed

lemma handler_too_large:
  assumes "truthy_str (imageData req)" and "truthy_str (filename req)"
    and "isSupportedFormat (declaredContentType req)"
    and "length (base64_decode e (str_value (imageData req))) > 2097152"
  shows "error_kind (body (snd (handler v e (Some req)))) = Some ''FILE_TOO_LARGE''"
  using assms by (simp add: handler_def Let_def)

lemma handler_validated_error_kinds:
  assumes "truthy_str (imageData req)" and "truthy_str (filename req)"
    and "isSupportedFormat (declaredContentType req)"
    and "length (base64_decode e (str_value (imageData req))) \<le> 2097152"
  shows "error_kind (body (snd (handler v e (Some req))))
           \<in> {None, Some ''MODERATION_FAILED'', Some ''INTERNAL_ERROR''}"
proof -
  let ?buf = "base64_decode e (str_value (imageData req))"
  let ?ct = "declaredContentType req"
  let ?f = "replace_extension (str_value (filename req))"
  obtain evs res where scan: "scanImageForModeration v e ?buf ?ct = (evs, res)"
    by (cases "scanImageForModeration v e ?buf ?ct")
  obtain evs' res' where up: "uploadImageToBackblaze e ?buf ?f ?ct = (evs', res')"
    by (cases "uploadImageToBackblaze e ?buf ?f ?ct")
  show ?thesis
    using assms scan up
    by (cases res; cases res')
       (simp_all add: handler_validated internal_error_response_def
          moderation_failed_response_def)
qed

text \<open>The size limit: 2 MiB passes, one byte more does not.\<close>

lemma toFixed2_MB_examples:
  "toFixed2_MB 3670016 = ''3.50''" "toFixed2_MB 2097153 = ''2.00''"
  by (simp_all add: toFixed2_MB_def show_nat.simps digit_char_def)

lemma size_boundary:
  assumes "truthy_str (imageData req)" and "truthy_str (filename req)"
    and "isSupportedFormat (declaredContentType req)"
  shows "error_kind (body (snd (handler v e (Some req)))) = Some ''FILE_TOO_LARGE''
           \<longleftrightarrow> length (base64_decode e (str_value (imageData req))) > 2097152"
  using assms handler_too_large [of req e v] handler_validated_error_kinds [of req e v]
  by (cases "length (base64_decode e (str_value (imageData req))) \<le> 2097152") auto

lemma handler_depends_on_declared_type:
  assumes "imageData req = imageData req'" and "filename req = filename req'"
    and "declaredContentType req = declaredContentType req'"
  shows "handler v e (Some req) = handler v e (Some req')"
  unfolding handler_def option.case assms by (rule refl)

lemma handler_missing_fields:
  assumes "\<not> truthy_str (imageData req) \<or> \<not> truthy_str (filename req)"
  shows "error_kind (body (snd (handler v e (Some req)))) = Some ''VALIDATION_ERROR''"
  using assms by (auto simp: handler_def)

text \<open>A JPEG is handed to the scan client as it is.\<close>

lemma jpeg_passes_through:
  "convertToRekognitionCompatible e b ''image/jpeg''
     = Inr \<lparr>buffer = b, format = ''jpeg'', converted = False\<rparr>"
  by (simp add: convertToRekognitionCompatible_def format_evals REKOGNITION_COMPATIBLE_FORMATS_def)

lemma scanImageForModeration_of_jpeg:
  "fst (scanImageForModeration v e b ''image/jpeg'') = fst (RekognitionClient_scan v e b ''image/jpeg'')"
  "snd (RekognitionClient_scan v e b ''image/jpeg'') = Inr m \<Longrightarrow>
     snd (scanImageForModeration v e b ''image/jpeg'') =
       Inr \<lparr>passed = passed m, moderationLabels = moderationLabels m,
            confidence = confidence m, error = None\<rparr>"
proof -
  obtain evs res where c: "RekognitionClient_scan v e b ''image/jpeg'' = (evs, res)"
    by (cases "RekognitionClient_scan v e b ''image/jpeg''")
  then show "fst (scanImageForModeration v e b ''image/jpeg'')
             = fst (RekognitionClient_scan v e b ''image/jpeg'')"
    by (cases res) (simp_all add: scanImageForModeration_def jpeg_passes_through getMimeType_def)
  assume "snd (RekognitionClient_scan v e b ''image/jpeg'') = Inr m"
  with c show "snd (scanImageForModeration v e b ''image/jpeg'') =
       Inr \<lparr>passed = passed m, moderationLabels = moderationLabels m,
            confidence = confidence m, error = None\<rparr>"
    by (simp add: scanImageForModeration_def jpeg_passes_through getMimeType_def)
qed

lemma handler_trace_starts_with_scan:
  assumes "truthy_str (imageData req)" and "truthy_str (filename req)"
    and "isSupportedFormat (declaredContentType req)"
    and "length (base64_decode e (str_value (imageData req))) \<le> 2097152"
  shows "prefix (fst (scanImageForModeration v e (base64_decode e (str_value (imageData req)))
                        (declaredContentType req)))
           (fst (handler v e (Some req)))"
proof -
  let ?buf = "base64_decode e (str_value (imageData req))"
  let ?ct = "declaredContentType req"
  let ?f = "replace_extension (str_value (filename req))"
  obtain evs res where scan: "scanImageForModeration v e ?buf ?ct = (evs, res)"
    by (cases "scanImageForModeration v e ?buf ?ct")
  obtain evs' res' where up: "uploadImageToBackblaze e ?buf ?f ?ct = (evs', res')"
    by (cases "uploadImageToBackblaze e ?buf ?f ?ct")
  have "fst (handler v e (Some req)) = evs \<or> fst (handler v e (Some req)) = evs @ evs'"
    using assms scan up by (auto simp: handler_validated split: sum.splits)
  with scan show ?thesis by auto
qed

lemma upload_of_jpeg:
  assumes "convertToWebP e b = Inr w" and "backblaze_putObject e f w ''image/webp'' = None"
  shows "uploadImageToBackblaze e b f ''image/jpeg'' =
           ([CallBackblazePut f w ''image/webp''],
            Inr ((case CDN_URL e of None \<Rightarrow> ''undefined'' | Some u \<Rightarrow> u) @ ''/'' @ f))"
proof -
  have "extractFormatFromContentType ''image/jpeg'' \<noteq> ''webp''"
    by (simp add: format_evals)
  then have "convertToWebPIfNeeded e b ''image/jpeg''
             = Inr \<lparr>buffer = w, format = ''webp'', converted = True\<rparr>"
    using assms(1) by (simp add: convertToWebPIfNeeded_unfold)
  with assms(2) show ?thesis
    by (simp add: uploadImageToBackblaze_def getMimeType_def)
qed


text \<open>
  Claim C10. A request without a content type is not rejected for that: the declared
  content type defaults to \<open>image/jpeg\<close>, the request is handled exactly as the same
  request with the content type \<open>image/jpeg\<close>, the answer is never
  \<open>UNSUPPORTED_FORMAT\<close>, and it is not \<open>VALIDATION_ERROR\<close> either when the two required
  fields are there. With the two fields and at most 2 MiB of image data, the image is
  processed as a JPEG: the conversion for the scan hands the decoded bytes on as they
  are, with format \<open>jpeg\<close>; the run begins with the scan client staging these bytes
  under \<open>image/jpeg\<close>, and its trace begins with the whole trace of that scan; a failed
  verdict is answered with \<open>MODERATION_FAILED\<close>; and after a passing verdict the bytes
  are re-encoded to WebP, published, and reported with the original format \<open>jpeg\<close>.
\<close>

theorem omitted_content_type_defaults_to_jpeg:
  assumes "contentType req = None"
  shows "declaredContentType req = ''image/jpeg''
     \<and> handler v e (Some req) = handler v e (Some (req\<lparr>contentType := Some ''image/jpeg''\<rparr>))
     \<and> error_kind (body (snd (handler v e (Some req)))) \<noteq> Some ''UNSUPPORTED_FORMAT''
     \<and> (truthy_str (imageData req) \<and> truthy_str (filename req) \<longrightarrow>
          error_kind (body (snd (handler v e (Some req)))) \<noteq> Some ''VALIDATION_ERROR'')
     \<and> (truthy_str (imageData req) \<and> truthy_str (filename req)
          \<and> length (base64_decode e (str_value (imageData req))) \<le> 2097152 \<longrightarrow>
          convertToRekognitionCompatible e (base64_decode e (str_value (imageData req)))
              (declaredContentType req)
            = Inr \<lparr>buffer = base64_decode e (str_value (imageData req)), format = ''jpeg'',
                   converted = False\<rparr>
          \<and> prefix [Logged Info ''Starting content moderation scan'',
                     CallS3Put (tempKey_of e ''image/jpeg'')
                       (base64_decode e (str_value (imageData req))) ''image/jpeg'']
                (fst (handler v e (Some req)))
          \<and> prefix (fst (RekognitionClient_scan v e
                             (base64_decode e (str_value (imageData req))) ''image/jpeg''))
                (fst (handler v e (Some req)))
          \<and> (\<forall>m. snd (RekognitionClient_scan v e
                          (base64_decode e (str_value (imageData req))) ''image/jpeg'') = Inr m
                   \<and> \<not> passed m \<longrightarrow>
                 handler v e (Some req) =
                   (fst (RekognitionClient_scan v e
                           (base64_decode e (str_value (imageData req))) ''image/jpeg''),
                    \<lparr>statusCode = 400,
                     body = \<lparr>success = False,
                             message_text = ''Image failed moderation checks'',
                             error_kind = Some ''MODERATION_FAILED'',
                             data = Some (ModerationFailedData (moderationLabels m)
                                            (confidence m))\<rparr>\<rparr>))
          \<and> (\<forall>m w. snd (RekognitionClient_scan v e
                            (base64_decode e (str_value (imageData req))) ''image/jpeg'') = Inr m
                   \<and> passed m
                   \<and> convertToWebP e (base64_decode e (str_value (imageData req))) = Inr w
                   \<and> backblaze_putObject e (replace_extension (str_value (filename req))) w
                        ''image/webp'' = None \<longrightarrow>
                 handler v e (Some req) =
                   (fst (RekognitionClient_scan v e
                           (base64_decode e (str_value (imageData req))) ''image/jpeg'')
                    @ [CallBackblazePut (replace_extension (str_value (filename req))) w
                         ''image/webp''],
                    \<lparr>statusCode = 200,
                     body = \<lparr>success = True,
                             message_text = ''Image successfully processed and uploaded'',
                             error_kind = None,
                             data = Some (SuccessData
                               (replace_extension (str_value (filename req)))
                               ((case CDN_URL e of None \<Rightarrow> ''undefined'' | Some u \<Rightarrow> u)
                                @ ''/'' @ replace_extension (str_value (filename req)))
                               ''jpeg'' ''webp'' True (confidence m))\<rparr>\<rparr>)))"
proof -
  let ?buf = "base64_decode e (str_value (imageData req))"
  let ?f = "replace_extension (str_value (filename req))"
  have ct: "declaredContentType req = ''image/jpeg''"
    using assms by (simp add: declaredContentType_def truthy_str_def)
  have same: "handler v e (Some req) = handler v e (Some (req\<lparr>contentType := Some ''image/jpeg''\<rparr>))"
    by (rule handler_depends_on_declared_type)
       (simp_all add: ct, simp add: declaredContentType_def truthy_str_def str_value_def)
  have sup: "isSupportedFormat (declaredContentType req)"
    by (simp add: ct stub_supported)
  have fmt: "extractFormatFromContentType ''image/jpeg'' = ''jpeg''"
    by (simp add: format_evals)
  have kinds: "error_kind (body (snd (handler v e (Some req))))
          \<in> {None, Some ''MODERATION_FAILED'', Some ''INTERNAL_ERROR'', Some ''FILE_TOO_LARGE''}"
    if fields: "truthy_str (imageData req)" "truthy_str (filename req)"
  proof (cases "length ?buf \<le> 2097152")
    case True
    from handler_validated_error_kinds [OF fields sup True, of v] show ?thesis by auto
  next
    case False
    then have "length ?buf > 2097152" by simp
    from handler_too_large [OF fields sup this, of v] show ?thesis by simp
  qed
  have no_validation: "truthy_str (imageData req) \<and> truthy_str (filename req) \<longrightarrow>
          error_kind (body (snd (handler v e (Some req)))) \<noteq> Some ''VALIDATION_ERROR''"
    using kinds by auto
  have no_unsupported:
    "error_kind (body (snd (handler v e (Some req)))) \<noteq> Some ''UNSUPPORTED_FORMAT''"
  proof (cases "truthy_str (imageData req) \<and> truthy_str (filename req)")
    case True
    with kinds show ?thesis by auto
  next
    case False
    then have "error_kind (body (snd (handler v e (Some req)))) = Some ''VALIDATION_ERROR''"
      using handler_missing_fields [of req v e] by blast
    then show ?thesis by simp
  qed
  have run: "truthy_str (imageData req) \<and> truthy_str (filename req)
          \<and> length ?buf \<le> 2097152 \<longrightarrow>
          convertToRekognitionCompatible e ?buf (declaredContentType req)
            = Inr \<lparr>buffer = ?buf, format = ''jpeg'', converted = False\<rparr>
          \<and> prefix [Logged Info ''Starting content moderation scan'',
                     CallS3Put (tempKey_of e ''image/jpeg'') ?buf ''image/jpeg'']
                (fst (handler v e (Some req)))
          \<and> prefix (fst (RekognitionClient_scan v e ?buf ''image/jpeg''))
                (fst (handler v e (Some req)))
          \<and> (\<forall>m. snd (RekognitionClient_scan v e ?buf ''image/jpeg'') = Inr m
                   \<and> \<not> passed m \<longrightarrow>
                 handler v e (Some req) =
                   (fst (RekognitionClient_scan v e ?buf ''image/jpeg''),
                    \<lparr>statusCode = 400,
                     body = \<lparr>success = False,
                             message_text = ''Image failed moderation checks'',
                             error_kind = Some ''MODERATION_FAILED'',
                             data = Some (ModerationFailedData (moderationLabels m)
                                            (confidence m))\<rparr>\<rparr>))
          \<and> (\<forall>m w. snd (RekognitionClient_scan v e ?buf ''image/jpeg'') = Inr m
                   \<and> passed m
                   \<and> convertToWebP e ?buf = Inr w
                   \<and> backblaze_putObject e ?f w ''image/webp'' = None \<longrightarrow>
                 handler v e (Some req) =
                   (fst (RekognitionClient_scan v e ?buf ''image/jpeg'')
                    @ [CallBackblazePut ?f w ''image/webp''],
                    \<lparr>statusCode = 200,
                     body = \<lparr>success = True,
                             message_text = ''Image successfully processed and uploaded'',
                             error_kind = None,
                             data = Some (SuccessData ?f
                               ((case CDN_URL e of None \<Rightarrow> ''undefined'' | Some u \<Rightarrow> u)
                                @ ''/'' @ ?f)
                               ''jpeg'' ''webp'' True (confidence m))\<rparr>\<rparr>))"
  proof (rule impI)
    assume all: "truthy_str (imageData req) \<and> truthy_str (filename req)
                 \<and> length ?buf \<le> 2097152"
    have v1: "truthy_str (imageData req)" using all by (rule conjunct1)
    have v2: "truthy_str (filename req)" using all by (rule conjunct2 [THEN conjunct1])
    have v3: "length ?buf \<le> 2097152" using all by (rule conjunct2 [THEN conjunct2])
    have v3': "length ?buf \<le> 2 * 1024 * 1024" using v3 by simp
    have first: "convertToRekognitionCompatible e ?buf (declaredContentType req)
            = Inr \<lparr>buffer = ?buf, format = ''jpeg'', converted = False\<rparr>"
      unfolding ct by (rule jpeg_passes_through)
    have scan_fst: "fst (scanImageForModeration v e ?buf (declaredContentType req))
                    = fst (RekognitionClient_scan v e ?buf ''image/jpeg'')"
      unfolding ct by (rule scanImageForModeration_of_jpeg(1))
    have scan_in: "prefix (fst (RekognitionClient_scan v e ?buf ''image/jpeg''))
                     (fst (handler v e (Some req)))"
      using handler_trace_starts_with_scan [OF v1 v2 sup v3, of v]
      unfolding scan_fst .
    have starts: "prefix [Logged Info ''Starting content moderation scan'',
                     CallS3Put (tempKey_of e ''image/jpeg'') ?buf ''image/jpeg'']
                    (fst (RekognitionClient_scan v e ?buf ''image/jpeg''))"
      by (rule client_scan_starts_with_put) (rule disjI1, rule refl)
    have second: "prefix [Logged Info ''Starting content moderation scan'',
                     CallS3Put (tempKey_of e ''image/jpeg'') ?buf ''image/jpeg'']
                (fst (handler v e (Some req)))"
      using starts scan_in by (rule prefix_order.trans)
    have scan_pair: "scanImageForModeration v e ?buf (declaredContentType req)
            = (fst (RekognitionClient_scan v e ?buf ''image/jpeg''),
               Inr \<lparr>passed = passed m, moderationLabels = moderationLabels m,
                    confidence = confidence m, error = None\<rparr>)"
      if m: "snd (RekognitionClient_scan v e ?buf ''image/jpeg'') = Inr m" for m
      using scanImageForModeration_of_jpeg(2) [OF m] scan_fst
      unfolding ct by (simp only: prod_eq_iff fst_conv snd_conv simp_thms)
    have failed: "handler v e (Some req) =
                   (fst (RekognitionClient_scan v e ?buf ''image/jpeg''),
                    \<lparr>statusCode = 400,
                     body = \<lparr>success = False,
                             message_text = ''Image failed moderation checks'',
                             error_kind = Some ''MODERATION_FAILED'',
                             data = Some (ModerationFailedData (moderationLabels m)
                                            (confidence m))\<rparr>\<rparr>)"
      if m: "snd (RekognitionClient_scan v e ?buf ''image/jpeg'') = Inr m" "\<not> passed m" for m
      using v1 v2 sup v3 m(2)
      by (simp add: handler_validated scan_pair [OF m(1)] moderation_failed_response_def)
    have passedc: "handler v e (Some req) =
                   (fst (RekognitionClient_scan v e ?buf ''image/jpeg'')
                    @ [CallBackblazePut ?f w ''image/webp''],
                    \<lparr>statusCode = 200,
                     body = \<lparr>success = True,
                             message_text = ''Image successfully processed and uploaded'',
                             error_kind = None,
                             data = Some (SuccessData ?f
                               ((case CDN_URL e of None \<Rightarrow> ''undefined'' | Some u \<Rightarrow> u)
                                @ ''/'' @ ?f)
                               ''jpeg'' ''webp'' True (confidence m))\<rparr>\<rparr>)"
      if m: "snd (RekognitionClient_scan v e ?buf ''image/jpeg'') = Inr m" "passed m"
        "convertToWebP e ?buf = Inr w" "backblaze_putObject e ?f w ''image/webp'' = None"
      for m w
    proof -
      have up: "uploadImageToBackblaze e ?buf ?f (declaredContentType req) =
           ([CallBackblazePut ?f w ''image/webp''],
            Inr ((case CDN_URL e of None \<Rightarrow> ''undefined'' | Some u \<Rightarrow> u) @ ''/'' @ ?f))"
        unfolding ct by (rule upload_of_jpeg [OF m(3,4)])
      have orig: "extractFormatFromContentType (declaredContentType req) = ''jpeg''"
        unfolding ct by (rule fmt)
      show ?thesis
        using v1 v2 sup v3 m(2)
        by (simp add: handler_validated scan_pair [OF m(1)] up orig)
    qed
    show "convertToRekognitionCompatible e ?buf (declaredContentType req)
            = Inr \<lparr>buffer = ?buf, format = ''jpeg'', converted = False\<rparr>
          \<and> prefix [Logged Info ''Starting content moderation scan'',
                     CallS3Put (tempKey_of e ''image/jpeg'') ?buf ''image/jpeg'']
                (fst (handler v e (Some req)))
          \<and> prefix (fst (RekognitionClient_scan v e ?buf ''image/jpeg''))
                (fst (handler v e (Some req)))
          \<and> (\<forall>m. snd (RekognitionClient_scan v e ?buf ''image/jpeg'') = Inr m
                   \<and> \<not> passed m \<longrightarrow>
                 handler v e (Some req) =
                   (fst (RekognitionClient_scan v e ?buf ''image/jpeg''),
                    \<lparr>statusCode = 400,
                     body = \<lparr>success = False,
                             message_text = ''Image failed moderation checks'',
                             error_kind = Some ''MODERATION_FAILED'',
                             data = Some (ModerationFailedData (moderationLabels m)
                                            (confidence m))\<rparr>\<rparr>))
          \<and> (\<forall>m w. snd (RekognitionClient_scan v e ?buf ''image/jpeg'') = Inr m
                   \<and> passed m
                   \<and> convertToWebP e ?buf = Inr w
                   \<and> backblaze_putObject e ?f w ''image/webp'' = None \<longrightarrow>
                 handler v e (Some req) =
                   (fst (RekognitionClient_scan v e ?buf ''image/jpeg'')
                    @ [CallBackblazePut ?f w ''image/webp''],
                    \<lparr>statusCode = 200,
                     body = \<lparr>success = True,
                             message_text = ''Image successfully processed and uploaded'',
                             error_kind = None,
                             data = Some (SuccessData ?f
                               ((case CDN_URL e of None \<Rightarrow> ''undefined'' | Some u \<Rightarrow> u)
                                @ ''/'' @ ?f)
                               ''jpeg'' ''webp'' True (confidence m))\<rparr>\<rparr>))"
    proof (intro conjI allI impI)
      show "convertToRekognitionCompatible e ?buf (declaredContentType req)
            = Inr \<lparr>buffer = ?buf, format = ''jpeg'', converted = False\<rparr>"
        by (rule first)
      show "prefix [Logged Info ''Starting content moderation scan'',
                     CallS3Put (tempKey_of e ''image/jpeg'') ?buf ''image/jpeg'']
                (fst (handler v e (Some req)))"
        by (rule second)
      show "prefix (fst (RekognitionClient_scan v e ?buf ''image/jpeg''))
                (fst (handler v e (Some req)))"
        by (rule scan_in)
    next
      fix m
      assume a: "snd (RekognitionClient_scan v e ?buf ''image/jpeg'') = Inr m \<and> \<not> passed m"
      show "handler v e (Some req) =
                   (fst (RekognitionClient_scan v e ?buf ''image/jpeg''),
                    \<lparr>statusCode = 400,
                     body = \<lparr>success = False,
                             message_text = ''Image failed moderation checks'',
                             error_kind = Some ''MODERATION_FAILED'',
                             data = Some (ModerationFailedData (moderationLabels m)
                                            (confidence m))\<rparr>\<rparr>)"
        by (rule failed [OF a [THEN conjunct1] a [THEN conjunct2]])
    next
      fix m w
      assume a: "snd (RekognitionClient_scan v e ?buf ''image/jpeg'') = Inr m
                   \<and> passed m
                   \<and> convertToWebP e ?buf = Inr w
                   \<and> backblaze_putObject e ?f w ''image/webp'' = None"
      show "handler v e (Some req) =
                   (fst (RekognitionClient_scan v e ?buf ''image/jpeg'')
                    @ [CallBackblazePut ?f w ''image/webp''],
                    \<lparr>statusCode = 200,
                     body = \<lparr>success = True,
                             message_text = ''Image successfully processed and uploaded'',
                             error_kind = None,
                             data = Some (SuccessData ?f
                               ((case CDN_URL e of None \<Rightarrow> ''undefined'' | Some u \<Rightarrow> u)
                                @ ''/'' @ ?f)
                               ''jpeg'' ''webp'' True (confidence m))\<rparr>\<rparr>)"
        by (rule passedc [OF a [THEN conjunct1] a [THEN conjunct2, THEN conjunct1]
                           a [THEN conjunct2, THEN conjunct2, THEN conjunct1]
                           a [THEN conjunct2, THEN conjunct2, THEN conjunct2]])
    qed
  qed
  show ?thesis
    by (rule conjI [OF ct conjI [OF same conjI [OF no_unsupported conjI [OF no_validation run]]]])
qed

theorem omitted_content_type_defaults_to_jpeg_witness:
  "contentType (stub_request ''photo.png'' None) = None
   \<and> declaredContentType (stub_request ''photo.png'' None) = ''image/jpeg''
   \<and> convertToRekognitionCompatible (stub_env [] []) [7, 7, 7, 7] ''image/jpeg''
       = Inr \<lparr>buffer = [7, 7, 7, 7], format = ''jpeg'', converted = False\<rparr>
   \<and> prefix [Logged Info ''Starting content moderation scan'',
              CallS3Put (tempKey_of (stub_env [] []) ''image/jpeg'') [7, 7, 7, 7] ''image/jpeg'']
         (fst (handler Hybrid (stub_env [] []) (Some (stub_request ''photo.png'' None))))
   \<and> handler Hybrid (stub_env [] []) (Some (stub_request ''photo.png'' None)) =
       (fst (RekognitionClient_scan Hybrid (stub_env [] []) [7, 7, 7, 7] ''image/jpeg'')
        @ [CallBackblazePut ''photo.webp'' webp_bytes ''image/webp''],
        \<lparr>statusCode = 200,
         body = \<lparr>success = True,
                 message_text = ''Image successfully processed and uploaded'',
                 error_kind = None,
                 data = Some (SuccessData ''photo.webp'' ''https://cdn.example/photo.webp''
                                ''jpeg'' ''webp'' True 0)\<rparr>\<rparr>)"
proof -
  let ?req = "stub_request ''photo.png'' None"
  let ?e = "stub_env [] []"
  let ?pass = "\<lparr>passed = True, moderationLabels = [], confidence = 0, error = None\<rparr>"
  have h: "contentType ?req = None" by (simp add: stub_request_def)
  have buf: "base64_decode ?e (str_value (imageData ?req)) = [7, 7, 7, 7]"
    by (simp add: stub_request_fields)
  have fields: "truthy_str (imageData ?req)" "truthy_str (filename ?req)"
    by (simp_all add: stub_request_fields)
  have len: "length (base64_decode ?e (str_value (imageData ?req))) \<le> 2097152"
    by (simp add: buf)
  have name: "replace_extension (str_value (filename ?req)) = ''photo.webp''"
    by (simp add: stub_request_fields extension_chars_def)
  have scan: "snd (RekognitionClient_scan Hybrid ?e [7, 7, 7, 7] ''image/jpeg'') = Inr ?pass"
    by (rule stub_client_passes)
  have enc: "convertToWebP ?e [7, 7, 7, 7] = Inr webp_bytes"
    by (simp add: convertToWebP_def instantiateSharpImage_def instantiate_try_def truthy_num_def
          num_value_def MAX_IMAGE_DIMENSION_def stub_env_def)
  have put: "backblaze_putObject ?e ''photo.webp'' webp_bytes ''image/webp'' = None"
    by (simp add: stub_env_def)
  have cdn: "CDN_URL ?e = Some ''https://cdn.example''"
    by (simp add: stub_env_def)
  note inst = omitted_content_type_defaults_to_jpeg [OF h, of Hybrid ?e]
  from inst have ct: "declaredContentType ?req = ''image/jpeg''" by (rule conjunct1)
  have valid: "truthy_str (imageData ?req) \<and> truthy_str (filename ?req)
          \<and> length (base64_decode ?e (str_value (imageData ?req))) \<le> 2097152"
    using fields len by simp
  note body = inst [THEN conjunct2, THEN conjunct2, THEN conjunct2, THEN conjunct2,
                    THEN mp, OF valid, unfolded buf name ct cdn option.case]
  note run1 = body [THEN conjunct1]
  note run2 = body [THEN conjunct2, THEN conjunct1]
  note run5 = body [THEN conjunct2, THEN conjunct2, THEN conjunct2, THEN conjunct2,
                    THEN spec, THEN spec, THEN mp, of ?pass webp_bytes]
  have "snd (RekognitionClient_scan Hybrid ?e [7, 7, 7, 7] ''image/jpeg'') = Inr ?pass
        \<and> passed ?pass
        \<and> convertToWebP ?e [7, 7, 7, 7] = Inr webp_bytes
        \<and> backblaze_putObject ?e ''photo.webp'' webp_bytes ''image/webp'' = None"
    using scan enc put by simp
  from run5 [OF this]
  have final: "handler Hybrid ?e (Some ?req) =
       (fst (RekognitionClient_scan Hybrid ?e [7, 7, 7, 7] ''image/jpeg'')
        @ [CallBackblazePut ''photo.webp'' webp_bytes ''image/webp''],
        \<lparr>statusCode = 200,
         body = \<lparr>success = True,
                 message_text = ''Image successfully processed and uploaded'',
                 error_kind = None,
                 data = Some (SuccessData ''photo.webp'' ''https://cdn.example/photo.webp''
                                ''jpeg'' ''webp'' True 0)\<rparr>\<rparr>)"
    by simp
  from h ct run1 run2 final show ?thesis by (intro conjI)
qed


end
